theory Spec2Isabelle
  imports Complex_Main
begin

section \<open>JavaScript values\<close>

text \<open>
  The wheel computes with JavaScript numbers. They are modelled as exact reals; the places
  where the source divides by zero (and JavaScript yields \<open>Infinity\<close> or \<open>NaN\<close>) are
  written out as branches of their own. A property that holds \<open>null\<close> is \<open>None\<close>.
\<close>

text \<open>A property of an options object handed to a constructor: absent, \<open>null\<close>, or set.\<close>

datatype 'a js = Undefined | Null | Val 'a

text \<open>
  lodash \<open>defaults(object, source)\<close>, one property at a time: the source's value is taken
  only where the destination resolves to \<open>undefined\<close>; an explicit \<open>null\<close> stays.
\<close>

fun defaults :: "'a js \<Rightarrow> 'a option \<Rightarrow> 'a option" where
  "defaults Undefined d = d"
| "defaults Null d = None"
| "defaults (Val x) d = Some x"

text \<open>Truthiness of a number and of a string, and \<open>a || b\<close> on each.\<close>

fun truthy_num :: "real option \<Rightarrow> bool" where
  "truthy_num None = False"
| "truthy_num (Some x) = (x \<noteq> 0)"

fun truthy_str :: "string option \<Rightarrow> bool" where
  "truthy_str None = False"
| "truthy_str (Some s) = (s \<noteq> [])"

definition or_num :: "real option \<Rightarrow> real option \<Rightarrow> real option" where
  "or_num a b = (if truthy_num a then a else b)"

definition or_str :: "string option \<Rightarrow> string option \<Rightarrow> string option" where
  "or_str a b = (if truthy_str a then a else b)"

text \<open>A number that may be \<open>null\<close>, read in arithmetic (\<open>null\<close> converts to 0).\<close>

fun num_of :: "real option \<Rightarrow> real" where
  "num_of None = 0"
| "num_of (Some x) = x"

section \<open>constants.js and utils.js\<close>

definition DIRECTION_REVERSED :: string where "DIRECTION_REVERSED = ''reversed''"
definition DIRECTION_CLOCKWISE :: string where "DIRECTION_CLOCKWISE = ''clockwise''"
definition DIRECTION_ANTI_CLOCKWISE :: string where "DIRECTION_ANTI_CLOCKWISE = ''anti-clockwise''"

definition ORIENTATION_HORIZONTAL :: string where "ORIENTATION_HORIZONTAL = ''horizontal''"
definition ORIENTATION_VERTICAL :: string where "ORIENTATION_VERTICAL = ''vertical''"
definition ORIENTATION_CURVED :: string where "ORIENTATION_CURVED = ''curved''"

definition ALIGNMENT_INNER :: string where "ALIGNMENT_INNER = ''inner''"
definition ALIGNMENT_OUTER :: string where "ALIGNMENT_OUTER = ''outer''"
definition ALIGNMENT_CENTER :: string where "ALIGNMENT_CENTER = ''center''"

definition DRAW_MODE_CODE :: string where "DRAW_MODE_CODE = ''code''"
definition DRAW_MODE_IMAGE :: string where "DRAW_MODE_IMAGE = ''image''"
definition DRAW_MODE_SEGMENT_IMAGE :: string where "DRAW_MODE_SEGMENT_IMAGE = ''segmentImage''"

definition ANIMATION_TYPE_SPIN_ONGOING :: string where "ANIMATION_TYPE_SPIN_ONGOING = ''spinOngoing''"
definition ANIMATION_TYPE_SPIN_TO_STOP :: string where "ANIMATION_TYPE_SPIN_TO_STOP = ''spinToStop''"
definition ANIMATION_TYPE_SPIN_AND_BACK :: string where "ANIMATION_TYPE_SPIN_AND_BACK = ''spinAndBack''"
definition ANIMATION_TYPE_CUSTOM :: string where "ANIMATION_TYPE_CUSTOM = ''custom''"

text \<open>\<open>degToRad\<close> multiplies by a decimal constant, not by \<open>pi / 180\<close>.\<close>

definition degToRad :: "real \<Rightarrow> real" where
  "degToRad deg = deg * (174532925199432957 / 10000000000000000000)"

definition percentageToDegrees :: "real \<Rightarrow> real" where
  "percentageToDegrees percentValue =
     (if percentValue > 0 \<and> percentValue \<le> 100 then 360 * (percentValue / 100) else 0)"

section \<open>Animation.js\<close>

text \<open>
  The options of an animation after construction. The four callback properties hold
  functions and take no part in \<open>computeAnimation\<close>; they are left out.
\<close>

record animation_options =
  atype :: "string option"
  direction :: "string option"
  propertyName :: "string option"
  propertyValue :: "real option"
  duration :: "real option"
  yoyo :: "bool option"
  repeat :: "real option"
  easing :: "string option"
  stopAngle :: "real option"
  spins :: "real option"
  clearTheCanvas :: "bool option"
  soundTrigger :: "string option"

text \<open>What the caller passes to \<open>new Animation(options)\<close>.\<close>

record animation_input =
  in_atype :: "string js"
  in_direction :: "string js"
  in_propertyName :: "string js"
  in_propertyValue :: "real js"
  in_duration :: "real js"
  in_yoyo :: "bool js"
  in_repeat :: "real js"
  in_easing :: "string js"
  in_stopAngle :: "real js"
  in_spins :: "real js"
  in_clearTheCanvas :: "bool js"
  in_soundTrigger :: "string js"

text \<open>An options object with no property set (\<open>{}\<close>).\<close>

definition no_animation_input :: animation_input where
  "no_animation_input =
     \<lparr> in_atype = Undefined, in_direction = Undefined, in_propertyName = Undefined,
       in_propertyValue = Undefined, in_duration = Undefined, in_yoyo = Undefined,
       in_repeat = Undefined, in_easing = Undefined, in_stopAngle = Undefined,
       in_spins = Undefined, in_clearTheCanvas = Undefined, in_soundTrigger = Undefined \<rparr>"

definition animation_defaultOptions :: animation_options where
  "animation_defaultOptions =
     \<lparr> atype = Some ''spinOngoing'', direction = Some ''clockwise'', propertyName = None,
       propertyValue = None, duration = Some 10, yoyo = Some False, repeat = None,
       easing = None, stopAngle = None, spins = None, clearTheCanvas = None,
       soundTrigger = Some ''segment'' \<rparr>"

text \<open>
  The animation object: its options and the private \<open>_stopAngle\<close>, which is \<open>undefined\<close>
  (here \<open>None\<close>) until \<open>computeAnimation\<close> sets it.
\<close>

record animation =
  a_options :: animation_options
  a_stopAngle :: "real option"

definition new_Animation :: "animation_input \<Rightarrow> animation" where
  "new_Animation i =
     \<lparr> a_options =
         \<lparr> atype = defaults (in_atype i) (atype animation_defaultOptions),
           direction = defaults (in_direction i) (direction animation_defaultOptions),
           propertyName = defaults (in_propertyName i) (propertyName animation_defaultOptions),
           propertyValue = defaults (in_propertyValue i) (propertyValue animation_defaultOptions),
           duration = defaults (in_duration i) (duration animation_defaultOptions),
           yoyo = defaults (in_yoyo i) (yoyo animation_defaultOptions),
           repeat = defaults (in_repeat i) (repeat animation_defaultOptions),
           easing = defaults (in_easing i) (easing animation_defaultOptions),
           stopAngle = defaults (in_stopAngle i) (stopAngle animation_defaultOptions),
           spins = defaults (in_spins i) (spins animation_defaultOptions),
           clearTheCanvas = defaults (in_clearTheCanvas i) (clearTheCanvas animation_defaultOptions),
           soundTrigger = defaults (in_soundTrigger i) (soundTrigger animation_defaultOptions) \<rparr>,
       a_stopAngle = None \<rparr>"

text \<open>\<open>if (x == null) x = d\<close>.\<close>

fun if_null :: "'a option \<Rightarrow> 'a \<Rightarrow> 'a option" where
  "if_null None d = Some d"
| "if_null (Some x) d = Some x"

text \<open>
  The spin delta shared by the spin-to-stop and spin-and-back cases: \<open>spins * 360\<close>, then
  negated and reduced by \<open>360 - _stopAngle\<close> when anti-clockwise, else raised by
  \<open>_stopAngle\<close>.
\<close>

definition spin_value :: "animation_options \<Rightarrow> real \<Rightarrow> real" where
  "spin_value os sa =
     (let pv = num_of (spins os) * 360 in
      if direction os = Some DIRECTION_ANTI_CLOCKWISE
      then (0 - pv) - (360 - sa)
      else pv + sa)"

text \<open>
  \<open>computeAnimation({ pointerAngle })\<close>. \<open>rnd\<close> is the value \<open>Math.random()\<close> returns
  if it is called.
\<close>

definition computeAnimation :: "animation \<Rightarrow> real \<Rightarrow> real \<Rightarrow> animation" where
  "computeAnimation a pointerAngle rnd =
     (let os = a_options a in
      if atype os = Some ANIMATION_TYPE_SPIN_ONGOING then
        (let os1 = os\<lparr> propertyName := Some ''rotationAngle'',
                        spins := if_null (spins os) 5,
                        repeat := if_null (repeat os) (- 1),
                        easing := if_null (easing os) ''Linear.easeNone'',
                         yoyo := if_null (yoyo os) False \<rparr>;
             pv = num_of (spins os1) * 360;
             pv' = (if direction os1 = Some DIRECTION_ANTI_CLOCKWISE then 0 - pv else pv)
         in a\<lparr> a_options := os1\<lparr> propertyValue := Some pv' \<rparr> \<rparr>)
      else if atype os = Some ANIMATION_TYPE_SPIN_TO_STOP then
        (let os1 = os\<lparr> propertyName := Some ''rotationAngle'',
                        spins := if_null (spins os) 5,
                        repeat := if_null (repeat os) 0,
                        easing := if_null (easing os) ''Power3.easeOut'' \<rparr>;
             sa = (case stopAngle os1 of
                     None \<Rightarrow> of_int \<lfloor>rnd * 359\<rfloor>
                   | Some s \<Rightarrow> 360 - s + pointerAngle);
             os2 = os1\<lparr> yoyo := if_null (yoyo os1) False \<rparr>
         in \<lparr> a_options = os2\<lparr> propertyValue := Some (spin_value os2 sa) \<rparr>,
              a_stopAngle = Some sa \<rparr>)
      else if atype os = Some ANIMATION_TYPE_SPIN_AND_BACK then
        (let os1 = os\<lparr> propertyName := Some ''rotationAngle'',
                        spins := if_null (spins os) 5,
                        repeat := if_null (repeat os) 1,
                        easing := if_null (easing os) ''Power2.easeInOut'',
                        yoyo := if_null (yoyo os) True \<rparr>;
             sa = (case stopAngle os1 of
                     None \<Rightarrow> 0
                   | Some s \<Rightarrow> 360 - s)
         in \<lparr> a_options = os1\<lparr> propertyValue := Some (spin_value os1 sa) \<rparr>,
              a_stopAngle = Some sa \<rparr>)
      else a)"

section \<open>Errors and console output\<close>

text \<open>
  A thrown \<open>Error\<close> carries its message. \<open>TypeError\<close> is what the runtime throws when
  a property of \<open>null\<close> or \<open>undefined\<close> is read. \<open>NonFinite\<close> is not an exception of
  the source: it marks the runs in which the source goes on with \<open>Infinity\<close> after a
  division by zero, a value the real numbers of this model do not have.
\<close>

datatype error = Error string | TypeError | NonFinite

text \<open>A natural number in a template string.\<close>

definition digit :: "nat \<Rightarrow> char" where
  "digit n = ''0123456789'' ! n"

function string_of_nat :: "nat \<Rightarrow> string" where
  "string_of_nat n =
     (if n < 10 then [digit n] else string_of_nat (n div 10) @ [digit (n mod 10)])"
  by pat_completeness auto
termination
  by (relation "measure id") auto

declare string_of_nat.simps [simp del]

section \<open>Segment.js: the segment and its angles\<close>

text \<open>An \<open>Image\<close> object: its source and natural size, which is 0 until it has loaded.\<close>

record image =
  img_src :: string
  img_width :: real
  img_height :: real

record segment_options =
  s_size :: "real option"
  s_text :: "string option"
  fillStyle :: "string option"
  strokeStyle :: "string option"
  lineWidth :: "real option"
  textFontFamily :: "string option"
  textFontSize :: "real option"
  textFontWeight :: "string option"
  textOrientation :: "string option"
  textAlignment :: "string option"
  textDirection :: "string option"
  textMargin :: "real option"
  textFillStyle :: "string option"
  textStrokeStyle :: "string option"
  textLineWidth :: "real option"
  s_image :: "string option"
  imageDirection :: "string option"
  imgData :: "image option"

definition segment_defaultOptions :: segment_options where
  "segment_defaultOptions =
     \<lparr> s_size = None, s_text = Some [], fillStyle = None, strokeStyle = None, lineWidth = None,
       textFontFamily = None, textFontSize = None, textFontWeight = None,
       textOrientation = None, textAlignment = None, textDirection = None,
       textMargin = None, textFillStyle = None, textStrokeStyle = None,
       textLineWidth = None, s_image = None, imageDirection = None, imgData = None \<rparr>"

text \<open>What the caller passes for one segment.\<close>

record segment_input =
  in_size :: "real js"
  in_text :: "string js"
  in_fillStyle :: "string js"
  in_strokeStyle :: "string js"
  in_lineWidth :: "real js"
  in_textFontFamily :: "string js"
  in_textFontSize :: "real js"
  in_textFontWeight :: "string js"
  in_textOrientation :: "string js"
  in_textAlignment :: "string js"
  in_textDirection :: "string js"
  in_textMargin :: "real js"
  in_textFillStyle :: "string js"
  in_textStrokeStyle :: "string js"
  in_textLineWidth :: "real js"
  in_image :: "string js"
  in_imageDirection :: "string js"
  in_imgData :: "image js"

definition no_segment_input :: segment_input where
  "no_segment_input =
     \<lparr> in_size = Undefined, in_text = Undefined, in_fillStyle = Undefined,
       in_strokeStyle = Undefined, in_lineWidth = Undefined, in_textFontFamily = Undefined,
       in_textFontSize = Undefined, in_textFontWeight = Undefined,
       in_textOrientation = Undefined, in_textAlignment = Undefined,
       in_textDirection = Undefined, in_textMargin = Undefined, in_textFillStyle = Undefined,
       in_textStrokeStyle = Undefined, in_textLineWidth = Undefined, in_image = Undefined,
       in_imageDirection = Undefined, in_imgData = Undefined \<rparr>"

text \<open>The segment: its options and the two angles the wheel sets, \<open>_startAngle\<close> and \<open>_endAngle\<close>.\<close>

record segment =
  s_options :: segment_options
  startAngle :: real
  endAngle :: real

text \<open>
  \<open>new Segment(options, ...)\<close>. A \<open>null\<close> argument (\<open>None\<close>) gets every default, as
  \<open>defaults(null, ...)\<close> starts from an empty object.
\<close>

definition new_Segment :: "segment_input option \<Rightarrow> segment" where
  "new_Segment inp =
     (let i = (case inp of None \<Rightarrow> no_segment_input | Some x \<Rightarrow> x); d = segment_defaultOptions in
      \<lparr> s_options =
          \<lparr> s_size = defaults (in_size i) (s_size d),
            s_text = defaults (in_text i) (s_text d),
            fillStyle = defaults (in_fillStyle i) (fillStyle d),
            strokeStyle = defaults (in_strokeStyle i) (strokeStyle d),
            lineWidth = defaults (in_lineWidth i) (lineWidth d),
            textFontFamily = defaults (in_textFontFamily i) (textFontFamily d),
            textFontSize = defaults (in_textFontSize i) (textFontSize d),
            textFontWeight = defaults (in_textFontWeight i) (textFontWeight d),
            textOrientation = defaults (in_textOrientation i) (textOrientation d),
            textAlignment = defaults (in_textAlignment i) (textAlignment d),
            textDirection = defaults (in_textDirection i) (textDirection d),
            textMargin = defaults (in_textMargin i) (textMargin d),
            textFillStyle = defaults (in_textFillStyle i) (textFillStyle d),
            textStrokeStyle = defaults (in_textStrokeStyle i) (textStrokeStyle d),
            textLineWidth = defaults (in_textLineWidth i) (textLineWidth d),
            s_image = defaults (in_image i) (s_image d),
            imageDirection = defaults (in_imageDirection i) (imageDirection d),
            imgData = defaults (in_imgData i) (imgData d) \<rparr>,
        startAngle = 0, endAngle = 0 \<rparr>)"

text \<open>\<open>setAngle({ startAngle, endAngle })\<close>: each angle is stored unless it is nil.\<close>

definition setAngle :: "segment \<Rightarrow> real option \<Rightarrow> real option \<Rightarrow> segment" where
  "setAngle s sa ea =
     (let s1 = (case sa of None \<Rightarrow> s | Some a \<Rightarrow> s\<lparr> startAngle := a \<rparr>)
      in (case ea of None \<Rightarrow> s1 | Some e \<Rightarrow> s1\<lparr> endAngle := e \<rparr>))"

text \<open>
  \<open>getRandomStopAngle\<close>, with \<open>rnd\<close> the value of \<open>Math.random()\<close>. The second
  component is what it writes to the console.
\<close>

definition getRandomStopAngle :: "segment \<Rightarrow> real \<Rightarrow> real \<times> string list" where
  "getRandomStopAngle s rnd =
     (let range = (endAngle s - startAngle s) - 2 in
      if range > 0 then (startAngle s + 1 + of_int \<lfloor>rnd * range\<rfloor>, [])
      else (0, [''Segment size is too small to safely get random angle inside it'']))"

section \<open>The wheel\<close>

text \<open>The canvas element: its size and the rectangle \<open>getBoundingClientRect()\<close> reports.\<close>

record canvas =
  cv_width :: real
  cv_height :: real
  bbox_left :: real
  bbox_top :: real
  bbox_width :: real
  bbox_height :: real

record pin_options =
  pin_visible :: bool
  pin_number :: nat
  pin_outerRadius :: real
  pin_fillStyle :: "string option"
  pin_strokeStyle :: "string option"
  pin_lineWidth :: real
  pin_margin :: real
  pin_responsive :: bool

record pointer_guide_options =
  pg_display :: bool
  pg_strokeStyle :: "string option"
  pg_lineWidth :: real

text \<open>
  The options of the wheel, after the constructor has filled the defaults and, from the
  canvas, the centre and the outer radius. \<open>w_segments\<close> is the caller's list of
  segment options, if any; an entry \<open>None\<close> is a falsy element.
\<close>

record wheel_options =
  w_centerX :: real
  w_centerY :: real
  w_outerRadius :: real
  w_innerRadius :: real
  w_numSegments :: int
  w_segments :: "segment_input option list option"
  w_drawMode :: "string option"
  w_rotationAngle :: real
  w_textFontFamily :: "string option"
  w_textFontSize :: "real option"
  w_textFontWeight :: "string option"
  w_textOrientation :: "string option"
  w_textAlignment :: "string option"
  w_textDirection :: "string option"
  w_textMargin :: "real option"
  w_textFillStyle :: "string option"
  w_textStrokeStyle :: "string option"
  w_textLineWidth :: "real option"
  w_fillStyle :: "string option"
  w_strokeStyle :: "string option"
  w_lineWidth :: "real option"
  w_clearTheCanvas :: bool
  w_imageOverlay :: bool
  w_drawText :: bool
  w_pointerAngle :: real
  w_wheelImage :: "image option"
  w_imageDirection :: "string option"
  w_scaleFactor :: real

text \<open>
  The wheel object. \<open>ctx\<close> tells whether the wheel holds a 2D drawing context; what is
  drawn on it is returned by the drawing functions as a list of calls.
\<close>

record wheel =
  w_options :: wheel_options
  w_canvas :: "canvas option"
  ctx :: bool
  segments :: "segment list"
  w_animation :: animation
  pins :: "pin_options option"
  pointerGuide :: pointer_guide_options

text \<open>
  The options of \<open>new Winwheel({ canvasElement })\<close>: the table \<open>defaultOptions\<close>, the
  text margin the constructor derives from the font size, and the centre and outer radius
  that \<open>initiateCanvas\<close> derives from the canvas.
\<close>

definition winwheel_defaultOptions :: "canvas \<Rightarrow> wheel_options" where
  "winwheel_defaultOptions cv =
     \<lparr> w_centerX = cv_width cv / 2,
       w_centerY = cv_height cv / 2,
       w_outerRadius =
         (if cv_width cv < cv_height cv then cv_width cv / 2 - 1 else cv_height cv / 2 - 1),
       w_innerRadius = 0,
       w_numSegments = 1,
       w_segments = None,
       w_drawMode = Some ''code'',
       w_rotationAngle = 0,
       w_textFontFamily = Some ''Arial'',
       w_textFontSize = Some 20,
       w_textFontWeight = Some ''bold'',
       w_textOrientation = Some ''horizontal'',
       w_textAlignment = Some ''center'',
       w_textDirection = Some ''normal'',
       w_textMargin = Some (20 / (17 / 10)),
       w_textFillStyle = Some ''black'',
       w_textStrokeStyle = None,
       w_textLineWidth = Some 1,
       w_fillStyle = Some ''silver'',
       w_strokeStyle = Some ''black'',
       w_lineWidth = Some 1,
       w_clearTheCanvas = True,
       w_imageOverlay = False,
       w_drawText = True,
       w_pointerAngle = 0,
       w_wheelImage = None,
       w_imageDirection = Some ''N'',
       w_scaleFactor = 1 \<rparr>"

definition pointerGuide_defaultOptions :: pointer_guide_options where
  "pointerGuide_defaultOptions =
     \<lparr> pg_display = False, pg_strokeStyle = Some ''red'', pg_lineWidth = 3 \<rparr>"

definition pin_defaultOptions :: pin_options where
  "pin_defaultOptions =
     \<lparr> pin_visible = True, pin_number = 36, pin_outerRadius = 3,
       pin_fillStyle = Some ''grey'', pin_strokeStyle = Some ''black'',
       pin_lineWidth = 1, pin_margin = 3, pin_responsive = False \<rparr>"

subsection \<open>Segment sizes\<close>

text \<open>The first loop of \<open>updateSegmentSizes\<close>: the arc used by the set sizes and their count.\<close>

fun arc_used :: "segment list \<Rightarrow> real \<times> nat \<Rightarrow> real \<times> nat" where
  "arc_used [] acc = acc"
| "arc_used (s # ss) (arcUsed, numSet) =
     (if truthy_num (s_size (s_options s))
      then arc_used ss (arcUsed + num_of (s_size (s_options s)), numSet + 1)
      else arc_used ss (arcUsed, numSet))"

text \<open>
  \<open>degreesEach\<close>: \<open>None\<close> is the \<open>Infinity\<close> that \<open>arcLeft / 0\<close> gives for a positive
  \<open>arcLeft\<close>.
\<close>

definition degrees_each :: "real \<Rightarrow> int \<Rightarrow> nat \<Rightarrow> real option" where
  "degrees_each arcLeft numSegments numSet =
     (if arcLeft > 0
      then (if numSegments - int numSet = 0 then None
            else Some (arcLeft / of_int (numSegments - int numSet)))
      else Some 0)"

text \<open>
  The second loop: each segment starts at the running angle and ends
  \<open>size || degreesEach\<close> further on. The result is \<open>None\<close> when a segment takes an
  infinite \<open>degreesEach\<close>.
\<close>

fun set_angles :: "segment list \<Rightarrow> real option \<Rightarrow> real \<Rightarrow> segment list option" where
  "set_angles [] degreesEach currentDegree = Some []"
| "set_angles (s # ss) degreesEach currentDegree =
     (case (if truthy_num (s_size (s_options s)) then s_size (s_options s) else degreesEach) of
        None \<Rightarrow> None
      | Some d \<Rightarrow>
          (case set_angles ss degreesEach (currentDegree + d) of
             None \<Rightarrow> None
           | Some ss' \<Rightarrow>
               Some (setAngle s (Some currentDegree) (Some (currentDegree + d)) # ss')))"

definition updateSegmentSizes :: "wheel \<Rightarrow> error + wheel" where
  "updateSegmentSizes w =
     (if segments w = [] then Inr w
      else
        (let (arcUsed, numSet) = arc_used (segments w) (0, 0);
             arcLeft = 360 - arcUsed;
             degreesEach = degrees_each arcLeft (w_numSegments (w_options w)) numSet
         in (case set_angles (segments w) degreesEach 0 of
               None \<Rightarrow> Inl NonFinite
             | Some ss \<Rightarrow> Inr (w\<lparr> segments := ss \<rparr>))))"

text \<open>
  \<open>initiateSegments\<close>: one segment for each index below \<open>numSegments\<close>, from the caller's
  entry at that index when there is a truthy one, then the sizes.
\<close>

definition segment_input_at :: "segment_input option list option \<Rightarrow> nat \<Rightarrow> segment_input option" where
  "segment_input_at segs i =
     (case segs of
        None \<Rightarrow> None
      | Some xs \<Rightarrow> (if i < length xs then xs ! i else None))"

definition initiateSegments :: "wheel \<Rightarrow> error + wheel" where
  "initiateSegments w =
     updateSegmentSizes
       (w\<lparr> segments :=
            map (\<lambda>i. new_Segment (segment_input_at (w_segments (w_options w)) i))
              [0 ..< nat (w_numSegments (w_options w))] \<rparr>)"

text \<open>
  lodash \<open>pullAt(array, index)\<close> removes the element at the index from the array and returns
  the array of the removed elements; for an index outside the array that is one
  \<open>undefined\<close> (\<open>None\<close>). The first component is the array after the call.
\<close>

definition pullAt :: "'a list \<Rightarrow> nat \<Rightarrow> 'a list \<times> 'a option list" where
  "pullAt xs i =
     (if i < length xs then (take i xs @ drop (Suc i) xs, [Some (xs ! i)])
      else (xs, [None]))"

text \<open>
  \<open>deleteSegment(position)\<close>. With a position, \<open>this.segments\<close> is assigned what \<open>pullAt\<close>
  returns; an \<open>undefined\<close> element in it makes \<open>updateSegmentSizes\<close> throw when it reads
  the element's options.
\<close>

definition deleteSegment :: "wheel \<Rightarrow> nat option \<Rightarrow> error + wheel" where
  "deleteSegment w position =
     (if length (segments w) \<le> 1 then Inr w
      else
        (let dec = (\<lambda>v. v\<lparr> w_options := (w_options v)\<lparr> w_numSegments := w_numSegments (w_options v) - 1 \<rparr> \<rparr>)
         in (case position of
               Some p \<Rightarrow>
                 (let removed = snd (pullAt (segments w) p) in
                  if None \<in> set removed then Inl TypeError
                  else updateSegmentSizes (dec (w\<lparr> segments := map the removed \<rparr>)))
             | None \<Rightarrow> updateSegmentSizes (dec (w\<lparr> segments := butlast (segments w) \<rparr>)))))"

text \<open>
  \<open>new Winwheel({ canvasElement, numSegments, segments }, false)\<close>. \<open>blank_wheel\<close> is
  the object before the segments are made: the default options on the canvas with the two
  options passed, a default animation and pointer guide and no pins. The second argument
  of the constructor keeps it from drawing.
\<close>

definition blank_wheel :: "canvas \<Rightarrow> int \<Rightarrow> segment_input option list option \<Rightarrow> wheel" where
  "blank_wheel cv n segs =
     \<lparr> w_options = (winwheel_defaultOptions cv)\<lparr> w_numSegments := n, w_segments := segs \<rparr>,
       w_canvas = Some cv,
       ctx = True,
       segments = [],
       w_animation = new_Animation no_animation_input,
       pins = None,
       pointerGuide = pointerGuide_defaultOptions \<rparr>"

definition new_Winwheel :: "canvas \<Rightarrow> int \<Rightarrow> segment_input option list option \<Rightarrow> error + wheel" where
  "new_Winwheel cv n segs = initiateSegments (blank_wheel cv n segs)"

text \<open>The tween driver writes the rotation angle into the options of the wheel.\<close>

definition set_rotationAngle :: "wheel \<Rightarrow> real \<Rightarrow> wheel" where
  "set_rotationAngle w r = w\<lparr> w_options := (w_options w)\<lparr> w_rotationAngle := r \<rparr> \<rparr>"

text \<open>A canvas of 400 by 400 at the top left of the window.\<close>

definition canvas400 :: canvas where
  "canvas400 =
     \<lparr> cv_width = 400, cv_height = 400, bbox_left = 0, bbox_top = 0,
       bbox_width = 400, bbox_height = 400 \<rparr>"

text \<open>The start and end angle of every segment, in array order.\<close>

definition spans_of :: "wheel \<Rightarrow> (real \<times> real) list" where
  "spans_of w = map (\<lambda>s. (startAngle s, endAngle s)) (segments w)"

text \<open>A segment input that sets the size only.\<close>

definition sized :: "real js \<Rightarrow> segment_input option" where
  "sized v = Some (no_segment_input\<lparr> in_size := v \<rparr>)"

text \<open>A wheel of three segments, the first of size 100, the second automatic, the third of size 60.\<close>

definition mixed_wheel :: wheel where
  "mixed_wheel =
     (blank_wheel canvas400 3 None)
       \<lparr> segments := map new_Segment [sized (Val 100), sized Null, sized (Val 60)] \<rparr>"

subsection \<open>Rotation\<close>

text \<open>
  \<open>getRotationPosition\<close>, over the reals. The code adds and multiplies doubles: there
  the sum \<open>360 + rawAngle\<close> is rounded, and for a negative angle close enough to 0 it
  is 360 itself.
\<close>

definition getRotationPosition :: "wheel \<Rightarrow> real" where
  "getRotationPosition w =
     (let rawAngle = w_rotationAngle (w_options w) in
      if rawAngle \<ge> 0 then
        (if rawAngle > 360 then rawAngle - 360 * of_int \<lfloor>rawAngle / 360\<rfloor> else rawAngle)
      else
        (let rawAngle1 =
               (if rawAngle < - 360 then rawAngle - 360 * of_int \<lceil>rawAngle / 360\<rceil>
                else rawAngle)
         in 360 + rawAngle1))"

text \<open>
  \<open>getRandomForSegment(segmentNumber)\<close>; \<open>None\<close> is a \<open>null\<close> or omitted argument, and
  \<open>rnd\<close> the value of \<open>Math.random()\<close>.
\<close>

definition getRandomForSegment :: "wheel \<Rightarrow> real \<Rightarrow> nat option \<Rightarrow> error + real \<times> string list" where
  "getRandomForSegment w rnd segmentNumber =
     (case segmentNumber of
        None \<Rightarrow> Inl (Error ''Segment number not specified'')
      | Some n \<Rightarrow>
          if n = 0 then Inl (Error ''Segment number not specified'')
          else if n \<ge> length (segments w)
            then Inl (Error (''Segment '' @ string_of_nat n @ '' undefined''))
          else Inr (getRandomStopAngle (segments w ! n) rnd))"

subsection \<open>Hit testing\<close>

text \<open>
  \<open>windowToCanvas(x, y)\<close>. A wheel without a canvas makes it throw. A co-ordinate is
  \<open>None\<close> when the bounding rectangle has no width or no height: the division by zero
  makes it \<open>NaN\<close> or infinite.
\<close>

definition windowToCanvas :: "wheel \<Rightarrow> real \<Rightarrow> real \<Rightarrow> error + int option \<times> int option" where
  "windowToCanvas w x y =
     (case w_canvas w of
        None \<Rightarrow> Inl TypeError
      | Some cv \<Rightarrow>
          Inr (if bbox_width cv = 0 then None
               else Some \<lfloor>x - bbox_left cv * (cv_width cv / bbox_width cv)\<rfloor>,
               if bbox_height cv = 0 then None
               else Some \<lfloor>y - bbox_top cv * (cv_height cv / bbox_height cv)\<rfloor>))"

text \<open>\<open>Math.round\<close>: halves go up.\<close>

definition js_round :: "real \<Rightarrow> real" where
  "js_round x = of_int \<lfloor>x + 1 / 2\<rfloor>"

text \<open>
  \<open>Math.atan(opposite / adjacent) * 180 / Math.PI\<close> for two sides that are not negative.
  With no adjacent side the quotient is \<open>Infinity\<close> and the angle 90, unless the
  opposite side is 0 as well: then the quotient and the angle are \<open>NaN\<close>, here \<open>None\<close>.
\<close>

definition atan_degrees :: "real \<Rightarrow> real \<Rightarrow> real option" where
  "atan_degrees opposite adjacent =
     (if adjacent = 0 then (if opposite = 0 then None else Some 90)
      else Some (arctan (opposite / adjacent) * 180 / pi))"

text \<open>
  The loop at the end of \<open>getSegmentNumberAt\<close>, from the index \<open>i\<close> on: the first
  segment whose angles hold the location angle, if the location is inside the ring.
\<close>

fun find_segment :: "real \<Rightarrow> real \<Rightarrow> real \<Rightarrow> real \<Rightarrow> segment list \<Rightarrow> nat \<Rightarrow> nat option" where
  "find_segment locationAngle hyp innerRadius outerRadius [] i = None"
| "find_segment locationAngle hyp innerRadius outerRadius (s # ss) i =
     (if locationAngle \<ge> startAngle s \<and> locationAngle \<le> endAngle s
      then (if hyp \<ge> innerRadius \<and> hyp \<le> outerRadius then Some i
            else find_segment locationAngle hyp innerRadius outerRadius ss (i + 1))
      else find_segment locationAngle hyp innerRadius outerRadius ss (i + 1))"

text \<open>
  The two sides of the right triangle between the centre and the location, each with the
  half of the wheel the location is in: right or left, bottom or top.
\<close>

definition triangle_sides ::
    "real \<Rightarrow> real \<Rightarrow> real \<Rightarrow> real \<Rightarrow> (real \<times> string) \<times> (real \<times> string)" where
  "triangle_sides locx locy centerX centerY =
     ((if locx > centerX then (locx - centerX, ''R'') else (centerX - locx, ''L'')),
      (if locy > centerY then (locy - centerY, ''B'') else (centerY - locy, ''T'')))"

text \<open>
  The location angle around the wheel from the angle in the triangle, by the half of the
  wheel the location is in: top or bottom, right or left.
\<close>

definition quadrant_angle :: "string \<Rightarrow> string \<Rightarrow> real \<Rightarrow> real" where
  "quadrant_angle topBottom leftRight result =
     (if topBottom = ''T'' \<and> leftRight = ''R'' then js_round (90 - result)
      else if topBottom = ''B'' \<and> leftRight = ''R'' then js_round (result + 90)
      else if topBottom = ''B'' \<and> leftRight = ''L'' then js_round ((90 - result) + 180)
      else if topBottom = ''T'' \<and> leftRight = ''L'' then js_round (result + 270)
      else 0)"

text \<open>The adjustment of the location angle to the rotation of the wheel.\<close>

definition unrotate :: "wheel \<Rightarrow> real \<Rightarrow> real" where
  "unrotate w located =
     (if w_rotationAngle (w_options w) \<noteq> 0 then
        (let moved = located - getRotationPosition w in
         if moved < 0 then 360 - \<bar>moved\<bar> else moved)
      else located)"

text \<open>
  The body of \<open>getSegmentNumberAt\<close> after the location on the canvas is known. A
  location angle that is \<open>NaN\<close> matches no segment.
\<close>

definition segment_at_location :: "wheel \<Rightarrow> real \<Rightarrow> real \<Rightarrow> nat option" where
  "segment_at_location w locx locy =
     (let opts = w_options w;
          centerX = w_centerX opts * w_scaleFactor opts;
          centerY = w_centerY opts * w_scaleFactor opts;
          outerRadius = w_outerRadius opts * w_scaleFactor opts;
          innerRadius = w_innerRadius opts * w_scaleFactor opts;
          ((adjacentSideLength, leftRight), (oppositeSideLength, topBottom)) =
            triangle_sides locx locy centerX centerY;
          hypotenuseSideLength =
            sqrt ((oppositeSideLength * oppositeSideLength) +
                  (adjacentSideLength * adjacentSideLength))
      in case atan_degrees oppositeSideLength adjacentSideLength of
           None \<Rightarrow> None
         | Some result \<Rightarrow>
             find_segment (unrotate w (quadrant_angle topBottom leftRight result))
               hypotenuseSideLength innerRadius outerRadius (segments w) 0)"

text \<open>
  \<open>getSegmentNumberAt(x, y)\<close>. With a co-ordinate that is not finite no segment is
  found: a \<open>NaN\<close> makes the location angle \<open>NaN\<close>, and an infinite one makes the
  hypotenuse infinite and so greater than the outer radius.
\<close>

definition getSegmentNumberAt :: "wheel \<Rightarrow> real \<Rightarrow> real \<Rightarrow> error + nat option" where
  "getSegmentNumberAt w x y =
     (case windowToCanvas w x y of
        Inl e \<Rightarrow> Inl e
      | Inr (Some locx, Some locy) \<Rightarrow> Inr (segment_at_location w (of_int locx) (of_int locy))
      | Inr _ \<Rightarrow> Inr None)"

text \<open>
  The point of the window at the mid-angle of a segment, turned with the wheel, and half
  way between the inner and the outer radius, for a canvas at the top left of the window.
  Angles are in degrees, clockwise from 12 o'clock.
\<close>

definition mid_point :: "wheel \<Rightarrow> segment \<Rightarrow> real \<times> real" where
  "mid_point w s =
     (let opts = w_options w;
          bearing = (startAngle s + endAngle s) / 2 + w_rotationAngle opts;
          radius = (w_innerRadius opts * w_scaleFactor opts +
                    w_outerRadius opts * w_scaleFactor opts) / 2
      in (w_centerX opts * w_scaleFactor opts + radius * sin (bearing * pi / 180),
          w_centerY opts * w_scaleFactor opts - radius * cos (bearing * pi / 180)))"

text \<open>A canvas of 200 by 200 at the top left of the window.\<close>

definition canvas200 :: canvas where
  "canvas200 =
     \<lparr> cv_width = 200, cv_height = 200, bbox_left = 0, bbox_top = 0,
       bbox_width = 200, bbox_height = 200 \<rparr>"

section \<open>Drawing\<close>

text \<open>
  The 2D context is outside the program; a drawing function returns the calls it makes on
  the context and the properties it assigns, in order. \<open>SetFont\<close> stands for the
  assignment of the font string, which joins the non-falsy ones of weight, size (followed
  by \<open>px\<close>) and family with spaces. \<open>RotateNonFinite\<close> is \<open>rotate\<close> called with
  \<open>Infinity\<close> or \<open>NaN\<close>.
\<close>

datatype ctx_op =
    Save
  | Restore
  | Translate real real
  | Rotate real
  | RotateNonFinite
  | SetTextAlign string
  | SetTextBaseline string
  | SetFont "string option" "real option" "string option"
  | SetFillStyle "string option"
  | SetStrokeStyle "string option"
  | SetLineWidth "real option"
  | FillText string real real
  | StrokeText string real real
  | DrawImage image real real real real
  | BeginPath
  | MoveTo real real
  | LineTo real real
  | Arc real real real real real bool
  | Fill
  | Stroke
  | ClearRect real real real real

text \<open>One statement after another; a thrown error ends the sequence.\<close>

definition seq :: "error + ctx_op list \<Rightarrow> error + ctx_op list \<Rightarrow> error + ctx_op list" where
  "seq a b =
     (case a of
        Inl e \<Rightarrow> Inl e
      | Inr xs \<Rightarrow> (case b of Inl e \<Rightarrow> Inl e | Inr ys \<Rightarrow> Inr (xs @ ys)))"

subsection \<open>Segment.js: text\<close>

text \<open>
  \<open>line.charAt(c)\<close>: the character at the index, or the empty string outside the text.
  A text is a list of characters, and its length their number.
\<close>

definition charAt :: "string \<Rightarrow> int \<Rightarrow> string" where
  "charAt line c = (if 0 \<le> c \<and> c < int (length line) then [line ! nat c] else [])"

text \<open>\<open>text.split('\n')\<close>.\<close>

fun split_lines :: "string \<Rightarrow> string list" where
  "split_lines [] = [[]]"
| "split_lines (c # cs) =
     (if c = CHR 0x0A then [] # split_lines cs
      else (case split_lines cs of
              [] \<Rightarrow> [[c]]
            | l # ls \<Rightarrow> (c # l) # ls))"

text \<open>A value in a template string.\<close>

fun show_str :: "string option \<Rightarrow> string" where
  "show_str None = ''null''"
| "show_str (Some s) = s"

text \<open>
  \<open>for (let c = from; c < n; c++)\<close> and \<open>for (let c = from; c >= 0; c--)\<close>, with a body
  that draws at the running position \<open>v\<close> and then moves it by \<open>inc\<close>.
\<close>

function up_loop :: "int \<Rightarrow> int \<Rightarrow> (int \<Rightarrow> real \<Rightarrow> ctx_op list) \<Rightarrow> real \<Rightarrow> real \<Rightarrow> ctx_op list" where
  "up_loop c n body v inc =
     (if c < n then body c v @ up_loop (c + 1) n body (v + inc) inc else [])"
  by pat_completeness auto
termination
  by (relation "measure (\<lambda>(c, n, body, v, inc). nat (n - c))") auto

function down_loop :: "int \<Rightarrow> (int \<Rightarrow> real \<Rightarrow> ctx_op list) \<Rightarrow> real \<Rightarrow> real \<Rightarrow> ctx_op list" where
  "down_loop c body v inc =
     (if c \<ge> 0 then body c v @ down_loop (c - 1) body (v + inc) inc else [])"
  by pat_completeness auto
termination
  by (relation "measure (\<lambda>(c, body, v, inc). nat (c + 1))") auto

declare up_loop.simps [simp del]
declare down_loop.simps [simp del]

text \<open>The arguments of \<open>_drawTextNormal\<close> and \<open>_drawTextReversed\<close>.\<close>

record text_args =
  ta_line :: string
  ta_lineTotal :: nat
  ta_centerX :: real
  ta_centerY :: real
  ta_outerRadius :: real
  ta_innerRadius :: real
  ta_fontSize :: real
  ta_margin :: real
  ta_lineOffset :: real
  ta_fillStyle :: "string option"
  ta_strokeStyle :: "string option"
  ta_orientation :: "string option"
  ta_alignment :: "string option"
  ta_rotationAngle :: real

text \<open>\<open>if (fillStyle) fillText(...); if (strokeStyle) strokeText(...)\<close>, and the other order.\<close>

definition fill_stroke :: "text_args \<Rightarrow> string \<Rightarrow> real \<Rightarrow> real \<Rightarrow> ctx_op list" where
  "fill_stroke a t x y =
     (if truthy_str (ta_fillStyle a) then [FillText t x y] else []) @
     (if truthy_str (ta_strokeStyle a) then [StrokeText t x y] else [])"

definition stroke_fill :: "text_args \<Rightarrow> string \<Rightarrow> real \<Rightarrow> real \<Rightarrow> ctx_op list" where
  "stroke_fill a t x y =
     (if truthy_str (ta_strokeStyle a) then [StrokeText t x y] else []) @
     (if truthy_str (ta_fillStyle a) then [FillText t x y] else [])"

text \<open>The rotation about the centre that every text case makes before it draws.\<close>

definition rotate_about :: "real \<Rightarrow> real \<Rightarrow> ctx_op \<Rightarrow> ctx_op list" where
  "rotate_about cx cy r = [Translate cx cy, r, Translate (- cx) (- cy)]"

text \<open>The body of the loops of vertical text: one character at \<open>yPos\<close>.\<close>

definition vertical_char :: "text_args \<Rightarrow> int \<Rightarrow> real \<Rightarrow> ctx_op list" where
  "vertical_char a c yPos =
     fill_stroke a (charAt (ta_line a) c) (ta_centerX a + ta_lineOffset a) yPos"

text \<open>
  \<open>anglePerChar\<close> of curved text; \<open>None\<close> when the radius is 0 and the division
  \<open>100 / radius\<close> makes it, and every draw angle after it, not finite.
\<close>

definition angle_per_char :: "text_args \<Rightarrow> real \<Rightarrow> real option" where
  "angle_per_char a radius =
     (if length (ta_line a) > 1
      then (if radius = 0 then None else Some (4 * (ta_fontSize a / 10) * (100 / radius)))
      else Some 0)"

text \<open>
  The body of the loops of curved text: one character at the draw angle, at the height
  \<open>y\<close>.
\<close>

definition curved_char :: "text_args \<Rightarrow> bool \<Rightarrow> real \<Rightarrow> int \<Rightarrow> real \<Rightarrow> ctx_op list" where
  "curved_char a fin y c drawAngle =
     [Save] @
     rotate_about (ta_centerX a) (ta_centerY a)
       (if fin then Rotate (degToRad drawAngle) else RotateNonFinite) @
     stroke_fill a (charAt (ta_line a) c) (ta_centerX a) y @
     [Restore]"

definition mid_angle :: "segment \<Rightarrow> real" where
  "mid_angle s = endAngle s - ((endAngle s - startAngle s) / 2)"

definition drawTextReversed :: "segment \<Rightarrow> text_args \<Rightarrow> error + ctx_op list" where
  "drawTextReversed s a =
     (let line = ta_line a; len = int (length (ta_line a));
          centerX = ta_centerX a; centerY = ta_centerY a;
          outerRadius = ta_outerRadius a; innerRadius = ta_innerRadius a;
          fontSize = ta_fontSize a; margin = ta_margin a; lineOffset = ta_lineOffset a;
          alignment = ta_alignment a; rotationAngle = ta_rotationAngle a
      in
      if ta_orientation a = Some ORIENTATION_HORIZONTAL then
        (let textAngle = degToRad ((mid_angle s + rotationAngle - 90) - 180) in
         Inr ([SetTextAlign
                 (if alignment = Some ALIGNMENT_INNER then ''right''
                  else if alignment = Some ALIGNMENT_OUTER then ''left''
                  else ''center''),
               SetTextBaseline ''middle'',
               Save] @
              rotate_about centerX centerY (Rotate textAngle) @
              (if alignment = Some ALIGNMENT_INNER then
                 fill_stroke a line (centerX - innerRadius - margin) (centerY + lineOffset)
               else if alignment = Some ALIGNMENT_OUTER then
                 fill_stroke a line (centerX - outerRadius + margin) (centerY + lineOffset)
               else
                 fill_stroke a line
                   (centerX - innerRadius - ((outerRadius - innerRadius) / 2) - margin)
                   (centerY + lineOffset)) @
              [Restore]))
      else if ta_orientation a = Some ORIENTATION_VERTICAL then
        (let textAngle = (mid_angle s - 180) + rotationAngle;
             yPos = (if alignment = Some ALIGNMENT_OUTER then centerY + outerRadius - margin
                     else if alignment = Some ''inner'' then centerY + innerRadius + margin
                     else 0);
             yInc = fontSize - fontSize / 9
         in
         Inr ([SetTextAlign ''center'',
               SetTextBaseline
                 (if alignment = Some ALIGNMENT_INNER then ''top''
                  else if alignment = Some ''outer'' then ''bottom''
                  else ''middle''),
               Save] @
              rotate_about centerX centerY (Rotate (degToRad textAngle)) @
              (if alignment = Some ALIGNMENT_OUTER then
                 down_loop (len - 1) (vertical_char a) yPos (- yInc)
               else if alignment = Some ALIGNMENT_INNER then
                 up_loop 0 len (vertical_char a) yPos yInc
               else if alignment = Some ALIGNMENT_CENTER then
                 (let centerAdjustment = (if len > 1 then yInc * (of_int len - 1) / 2 else 0);
                      yPos1 = centerY + innerRadius + (outerRadius - innerRadius) / 2
                                + centerAdjustment + margin
                  in down_loop (len - 1) (vertical_char a) yPos1 (- yInc))
               else []) @
              [Restore]))
      else if ta_orientation a = Some ORIENTATION_CURVED then
        (let radius =
               (if alignment = Some ALIGNMENT_INNER then innerRadius + margin
                else if alignment = Some ALIGNMENT_OUTER then
                  (outerRadius - margin) - fontSize * (real (ta_lineTotal a) - 1)
                else if alignment = Some ALIGNMENT_CENTER then
                  innerRadius + margin + (outerRadius - innerRadius) / 2
                else 0);
             baseline =
               (if alignment = Some ALIGNMENT_INNER then [SetTextBaseline ''top'']
                else if alignment = Some ALIGNMENT_OUTER then [SetTextBaseline ''bottom'']
                else if alignment = Some ALIGNMENT_CENTER then [SetTextBaseline ''middle'']
                else []);
             anglePerChar = angle_per_char a radius;
             totalArc = num_of anglePerChar * of_int len;
             drawAngle0 =
               (if len > 1 then startAngle s + (endAngle s - startAngle s) / 2 - totalArc / 2
                else startAngle s + (endAngle s - startAngle s) / 2);
             drawAngle = (drawAngle0 + rotationAngle) - 180
         in
         Inr (baseline @
              [SetTextAlign (if len > 1 then ''left'' else ''center'')] @
              down_loop len
                (curved_char a (anglePerChar \<noteq> None) (centerY + radius + lineOffset))
                drawAngle (num_of anglePerChar)))
      else Inl (Error (''Invalid orientation: '' @ show_str (ta_orientation a))))"

definition drawTextNormal :: "segment \<Rightarrow> text_args \<Rightarrow> error + ctx_op list" where
  "drawTextNormal s a =
     (let line = ta_line a; len = int (length (ta_line a));
          centerX = ta_centerX a; centerY = ta_centerY a;
          outerRadius = ta_outerRadius a; innerRadius = ta_innerRadius a;
          fontSize = ta_fontSize a; margin = ta_margin a; lineOffset = ta_lineOffset a;
          alignment = ta_alignment a; rotationAngle = ta_rotationAngle a
      in
      if ta_orientation a = Some ORIENTATION_HORIZONTAL then
        (let textAngle = degToRad (mid_angle s + rotationAngle - 90) in
         Inr ([SetTextAlign
                 (if alignment = Some ALIGNMENT_INNER then ''left''
                  else if alignment = Some ALIGNMENT_OUTER then ''right''
                  else ''center''),
               SetTextBaseline ''middle'',
               Save] @
              rotate_about centerX centerY (Rotate textAngle) @
              (if alignment = Some ALIGNMENT_INNER then
                 fill_stroke a line (centerX + innerRadius + margin) (centerY + lineOffset)
               else if alignment = Some ALIGNMENT_OUTER then
                 fill_stroke a line (centerX + outerRadius - margin) (centerY + lineOffset)
               else
                 fill_stroke a line
                   (centerX + innerRadius + ((outerRadius - innerRadius) / 2) + margin)
                   (centerY + lineOffset)) @
              [Restore]))
      else if ta_orientation a = Some ORIENTATION_VERTICAL then
        (let textAngle = mid_angle s + rotationAngle;
             yPos = (if alignment = Some ALIGNMENT_OUTER then centerY - outerRadius + margin
                     else if alignment = Some ALIGNMENT_INNER then centerY - innerRadius - margin
                     else 0);
             yInc = fontSize - (fontSize / 9)
         in
         Inr ([SetTextAlign ''center'',
               SetTextBaseline
                 (if alignment = Some ALIGNMENT_INNER then ''bottom''
                  else if alignment = Some ALIGNMENT_OUTER then ''top''
                  else ''middle''),
               Save] @
              rotate_about centerX centerY (Rotate (degToRad textAngle)) @
              (if alignment = Some ALIGNMENT_OUTER then
                 up_loop 0 len (vertical_char a) yPos yInc
               else if alignment = Some ALIGNMENT_INNER then
                 down_loop (len - 1) (vertical_char a) yPos (- yInc)
               else if alignment = Some ALIGNMENT_CENTER then
                 (let centerAdjustment = (if len > 1 then yInc * (of_int len - 1) / 2 else 0);
                      yPos1 = (centerY - innerRadius - ((outerRadius - innerRadius) / 2))
                                - centerAdjustment - margin
                  in up_loop 0 len (vertical_char a) yPos1 yInc)
               else []) @
              [Restore]))
      else if ta_orientation a = Some ORIENTATION_CURVED then
        (let radius =
               (if alignment = Some ALIGNMENT_INNER then
                  (innerRadius + margin) + fontSize * (real (ta_lineTotal a) - 1)
                else if alignment = Some ALIGNMENT_OUTER then outerRadius - margin
                else if alignment = Some ALIGNMENT_CENTER then
                  innerRadius + margin + (outerRadius - innerRadius) / 2
                else 0);
             baseline =
               (if alignment = Some ALIGNMENT_INNER then [SetTextBaseline ''bottom'']
                else if alignment = Some ALIGNMENT_OUTER then [SetTextBaseline ''top'']
                else if alignment = Some ALIGNMENT_CENTER then [SetTextBaseline ''middle'']
                else []);
             anglePerChar = angle_per_char a radius;
             totalArc = num_of anglePerChar * of_int len;
             drawAngle0 =
               (if len > 1 then startAngle s + (((endAngle s - startAngle s) / 2) - (totalArc / 2))
                else startAngle s + (endAngle s - startAngle s) / 2);
             drawAngle = drawAngle0 + rotationAngle
         in
         Inr (baseline @
              [SetTextAlign (if len > 1 then ''left'' else ''center'')] @
              up_loop 0 len
                (curved_char a (anglePerChar \<noteq> None) (centerY - radius + lineOffset))
                drawAngle (num_of anglePerChar)))
      else Inl (Error (''Invalid orientation '' @ show_str (ta_orientation a))))"

text \<open>
  The loop of \<open>drawText\<close> over the lines: each line is drawn reversed or normal, and the
  line offset grows by the font size.
\<close>

fun draw_lines :: "segment \<Rightarrow> text_args \<Rightarrow> bool \<Rightarrow> string list \<Rightarrow> real \<Rightarrow> error + ctx_op list" where
  "draw_lines s a reversed [] lineOffset = Inr []"
| "draw_lines s a reversed (l # ls) lineOffset =
     seq ((if reversed then drawTextReversed else drawTextNormal) s
            (a\<lparr> ta_line := l, ta_lineOffset := lineOffset \<rparr>))
         (draw_lines s a reversed ls (lineOffset + ta_fontSize a))"

text \<open>\<open>drawText({ context, centerX, centerY, outerRadius, innerRadius, defaultOptions })\<close>.\<close>

definition Segment_drawText ::
    "segment \<Rightarrow> real \<Rightarrow> real \<Rightarrow> real \<Rightarrow> real \<Rightarrow> wheel_options \<Rightarrow> error + ctx_op list" where
  "Segment_drawText s centerX centerY outerRadius innerRadius defaultOptions =
     (let so = s_options s in
      if \<not> truthy_str (s_text so) then Inr []
      else
        (let fontFamily = or_str (textFontFamily so) (w_textFontFamily defaultOptions);
             fontSize0 = or_num (textFontSize so) (w_textFontSize defaultOptions);
             fontWeight = or_str (textFontWeight so) (w_textFontWeight defaultOptions);
             orientation = or_str (textOrientation so) (w_textOrientation defaultOptions);
             alignment = or_str (textAlignment so) (w_textAlignment defaultOptions);
             direction = or_str (textDirection so) (w_textDirection defaultOptions);
             margin0 = or_num (textMargin so) (w_textMargin defaultOptions);
             fillStyle = or_str (textFillStyle so) (w_textFillStyle defaultOptions);
             strokeStyle = or_str (textStrokeStyle so) (w_textStrokeStyle defaultOptions);
             lineWidth = or_num (textLineWidth so) (w_textLineWidth defaultOptions);
             fontSize = num_of fontSize0 * w_scaleFactor defaultOptions;
             margin = num_of margin0 * w_scaleFactor defaultOptions;
             lines = split_lines (show_str (s_text so));
             lineOffset =
               (if orientation = Some ORIENTATION_CURVED \<and>
                   (alignment = Some ALIGNMENT_INNER \<or> alignment = Some ALIGNMENT_OUTER)
                then 0
                else 0 - (fontSize * (real (length lines) / 2)) + (fontSize / 2));
             a = \<lparr> ta_line = [], ta_lineTotal = length lines,
                   ta_centerX = centerX, ta_centerY = centerY,
                   ta_outerRadius = outerRadius, ta_innerRadius = innerRadius,
                   ta_fontSize = fontSize, ta_margin = margin, ta_lineOffset = lineOffset,
                   ta_fillStyle = fillStyle, ta_strokeStyle = strokeStyle,
                   ta_orientation = orientation, ta_alignment = alignment,
                   ta_rotationAngle = w_rotationAngle defaultOptions \<rparr>
         in seq (Inr [SetFont (if truthy_str fontWeight then fontWeight else None)
                        (if fontSize \<noteq> 0 then Some fontSize else None)
                        (if truthy_str fontFamily then fontFamily else None),
                      SetFillStyle fillStyle,
                      SetStrokeStyle strokeStyle,
                      SetLineWidth lineWidth])
                (draw_lines s a (direction = Some DIRECTION_REVERSED) lines lineOffset)))"

subsection \<open>Segment.js: the wedge and the image\<close>

text \<open>\<open>draw({ context, centerX, centerY, innerRadius, outerRadius, defaultOptions })\<close>.\<close>

definition Segment_draw ::
    "segment \<Rightarrow> bool \<Rightarrow> real \<Rightarrow> real \<Rightarrow> real \<Rightarrow> real \<Rightarrow> wheel_options \<Rightarrow> ctx_op list" where
  "Segment_draw s context centerX centerY innerRadius outerRadius defaultOptions =
     (if \<not> context then []
      else
        (let fill = or_str (fillStyle (s_options s)) (w_fillStyle defaultOptions);
             lw = or_num (lineWidth (s_options s)) (w_lineWidth defaultOptions);
             stroke = or_str (strokeStyle (s_options s)) (w_strokeStyle defaultOptions);
             from = degToRad (startAngle s + w_rotationAngle defaultOptions - 90);
             to = degToRad (endAngle s + w_rotationAngle defaultOptions - 90)
         in [SetFillStyle fill, SetLineWidth lw, SetStrokeStyle stroke] @
            (if truthy_str stroke \<or> truthy_str fill then
               [BeginPath] @
               (if innerRadius = 0 then [MoveTo centerX centerY]
                else [MoveTo (centerX + cos from * (innerRadius - num_of lw / 2))
                             (centerY + sin from * (innerRadius - num_of lw / 2))]) @
               [Arc centerX centerY outerRadius from to False] @
               (if innerRadius \<noteq> 0 then [Arc centerX centerY innerRadius to from True]
                else [LineTo centerX centerY]) @
               (if truthy_str fill then [Fill] else []) @
               (if truthy_str stroke then [Stroke] else [])
             else [])))"

text \<open>
  \<open>renderImage\<close>: a new \<open>Image\<close> for the path of the segment. Its load callback can only
  run after the current call has returned, so its size is 0 for the rest of the call.
\<close>

definition renderImage :: "segment \<Rightarrow> segment" where
  "renderImage s =
     (if \<not> truthy_str (s_image (s_options s)) then s
      else s\<lparr> s_options := (s_options s)
                \<lparr> imgData := Some \<lparr> img_src = show_str (s_image (s_options s)),
                                     img_width = 0, img_height = 0 \<rparr> \<rparr> \<rparr>)"

text \<open>
  \<open>drawImage({ context, centerX, centerY, scaleFactor, rotationAngle, defaultDirection })\<close>.
  The segment is returned as well, since \<open>renderImage\<close> may have changed it.
\<close>

definition Segment_drawImage ::
    "segment \<Rightarrow> bool \<Rightarrow> real \<Rightarrow> real \<Rightarrow> real \<Rightarrow> real \<Rightarrow> string option \<Rightarrow>
     segment \<times> (error + ctx_op list)" where
  "Segment_drawImage s context centerX centerY scaleFactor rotationAngle defaultDirection =
     (if \<not> context then (s, Inr [])
      else
        (let s1 = (if imgData (s_options s) = None then renderImage s else s) in
         case imgData (s_options s1) of
           None \<Rightarrow> (s1, Inl (Error ''imgData is not loaded''))
         | Some im \<Rightarrow>
             if img_height im = 0 then (s1, Inl (Error ''imgData is not loaded''))
             else
               (let scaledWidth = img_width im * scaleFactor;
                    scaledHeight = img_height im * scaleFactor;
                    dir = or_str (imageDirection (s_options s1)) defaultDirection;
                    half = (endAngle s1 - startAngle s1) / 2;
                    (imageLeft, imageTop, imageAngle) =
                      (if dir = Some ''S'' then
                         (centerX - scaledWidth / 2, centerY, startAngle s1 + 180 + half)
                       else if dir = Some ''E'' then
                         (centerX, centerY - scaledHeight / 2, startAngle s1 + 270 + half)
                       else if dir = Some ''W'' then
                         (centerX - scaledWidth, centerY - scaledHeight / 2,
                          startAngle s1 + 90 + half)
                       else
                         (centerX - scaledWidth / 2, centerY - scaledHeight,
                          startAngle s1 + half))
                in (s1, Inr ([Save] @
                             rotate_about centerX centerY
                               (Rotate (degToRad (rotationAngle + imageAngle))) @
                             [DrawImage im imageLeft imageTop scaledWidth scaledHeight,
                              Restore])))))"

subsection \<open>Pin.js and PointerGuide.js\<close>

definition Pin_draw :: "pin_options \<Rightarrow> real \<Rightarrow> real \<Rightarrow> real \<Rightarrow> wheel_options \<Rightarrow> ctx_op list" where
  "Pin_draw p centerX centerY outerRadius defaultOptions =
     (if pin_number p = 0 then []
      else
        (let pinOuterRadius =
               (if pin_responsive p then pin_outerRadius p * w_scaleFactor defaultOptions
                else pin_outerRadius p);
             pinMargin =
               (if pin_responsive p then pin_margin p * w_scaleFactor defaultOptions
                else pin_margin p);
             pinSpacing = 360 / real (pin_number p)
         in concat (map (\<lambda>i.
              [Save,
               SetStrokeStyle (pin_strokeStyle p),
               SetLineWidth (Some (pin_lineWidth p)),
               SetFillStyle (pin_fillStyle p)] @
              rotate_about centerX centerY
                (Rotate (degToRad (real i * pinSpacing + w_rotationAngle defaultOptions))) @
              [BeginPath,
               Arc centerX ((centerY - outerRadius) + pinOuterRadius + pinMargin)
                 pinOuterRadius 0 (2 * pi) False] @
              (if truthy_str (pin_fillStyle p) then [Fill] else []) @
              (if truthy_str (pin_strokeStyle p) then [Stroke] else []) @
              [Restore]) [0 ..< pin_number p])))"

definition PointerGuide_draw ::
    "pointer_guide_options \<Rightarrow> bool \<Rightarrow> real \<Rightarrow> real \<Rightarrow> real \<Rightarrow> real \<Rightarrow> real \<Rightarrow> ctx_op list" where
  "PointerGuide_draw g context centerX0 centerY0 scaleFactor outerRadius0 pointerAngle =
     (if \<not> context then []
      else
        (let centerX = centerX0 * scaleFactor;
             centerY = centerY0 * scaleFactor;
             outerRadius = outerRadius0 * scaleFactor
         in [Save] @
            rotate_about centerX centerY (Rotate (degToRad pointerAngle)) @
            [SetStrokeStyle (pg_strokeStyle g),
             SetLineWidth (Some (pg_lineWidth g)),
             BeginPath,
             MoveTo centerX centerY,
             LineTo centerX (- (outerRadius / 4)),
             Stroke,
             Restore]))"

subsection \<open>Drawing the wheel\<close>

definition clearCanvas :: "wheel \<Rightarrow> error + ctx_op list" where
  "clearCanvas w =
     (if \<not> ctx w then Inr []
      else (case w_canvas w of
              None \<Rightarrow> Inl TypeError
            | Some cv \<Rightarrow> Inr [ClearRect 0 0 (cv_width cv) (cv_height cv)]))"

definition drawWheelImage :: "wheel \<Rightarrow> ctx_op list" where
  "drawWheelImage w =
     (case w_wheelImage (w_options w) of
        None \<Rightarrow> []
      | Some im \<Rightarrow>
          (let opts = w_options w;
               centerX = w_centerX opts * w_scaleFactor opts;
               centerY = w_centerY opts * w_scaleFactor opts;
               scaledWidth = img_width im * w_scaleFactor opts;
               scaledHeight = img_height im * w_scaleFactor opts;
               imageLeft = centerX - (scaledWidth / 2);
               imageTop = centerY - (scaledHeight / 2)
           in [Save] @
              rotate_about centerX centerY (Rotate (degToRad (w_rotationAngle opts))) @
              [DrawImage im imageLeft imageTop scaledWidth scaledHeight, Restore]))"

definition drawPins :: "wheel \<Rightarrow> ctx_op list" where
  "drawPins w =
     (case pins w of
        None \<Rightarrow> []
      | Some p \<Rightarrow>
          (let opts = w_options w in
           Pin_draw p (w_centerX opts * w_scaleFactor opts) (w_centerY opts * w_scaleFactor opts)
             (w_outerRadius opts * w_scaleFactor opts) opts))"

text \<open>\<open>drawPointerGuide\<close> passes the outer radius as the pointer angle.\<close>

definition drawPointerGuide :: "wheel \<Rightarrow> ctx_op list" where
  "drawPointerGuide w =
     (let opts = w_options w in
      PointerGuide_draw (pointerGuide w) (ctx w) (w_centerX opts) (w_centerY opts)
        (w_scaleFactor opts) (w_outerRadius opts) (w_outerRadius opts))"

definition drawSegments :: "wheel \<Rightarrow> ctx_op list" where
  "drawSegments w =
     (if \<not> ctx w then []
      else
        (let opts = w_options w in
         concat (map (\<lambda>s. Segment_draw s (ctx w)
                            (w_centerX opts * w_scaleFactor opts) (w_centerY opts * w_scaleFactor opts)
                            (w_innerRadius opts * w_scaleFactor opts)
                            (w_outerRadius opts * w_scaleFactor opts) opts)
                   (segments w))))"

text \<open>The loop of \<open>drawSegmentText\<close>: save, draw the text of the segment, restore.\<close>

fun draw_texts :: "wheel_options \<Rightarrow> segment list \<Rightarrow> error + ctx_op list" where
  "draw_texts opts [] = Inr []"
| "draw_texts opts (s # ss) =
     seq (seq (Inr [Save])
            (seq (Segment_drawText s
                    (w_centerX opts * w_scaleFactor opts) (w_centerY opts * w_scaleFactor opts)
                    (w_outerRadius opts * w_scaleFactor opts) (w_innerRadius opts * w_scaleFactor opts) opts)
                 (Inr [Restore])))
         (draw_texts opts ss)"

definition drawSegmentText :: "wheel \<Rightarrow> error + ctx_op list" where
  "drawSegmentText w = (if \<not> ctx w then Inr [] else draw_texts (w_options w) (segments w))"

text \<open>
  The loop of \<open>drawSegmentImages\<close> from the index \<open>i\<close> on: the image of each segment is
  drawn inside \<open>try\<close>, and a caught error is written to the console with the index. It
  returns the segments, the calls on the context and the console lines.
\<close>

fun draw_images ::
    "wheel_options \<Rightarrow> bool \<Rightarrow> segment list \<Rightarrow> nat \<Rightarrow> segment list \<times> ctx_op list \<times> string list" where
  "draw_images opts context [] i = ([], [], [])"
| "draw_images opts context (s # ss) i =
     (let (s', r) = Segment_drawImage s context
                      (w_centerX opts * w_scaleFactor opts) (w_centerY opts * w_scaleFactor opts)
                      (w_scaleFactor opts) (w_rotationAngle opts) (w_imageDirection opts);
          (ss', ops, logs) = draw_images opts context ss (i + 1)
      in case r of
           Inr drawn \<Rightarrow> (s' # ss', drawn @ ops, logs)
         | Inl e \<Rightarrow>
             (s' # ss', ops,
              (''Segment '' @ string_of_nat i @ '': '' @ (case e of Error m \<Rightarrow> m | _ \<Rightarrow> [])) # logs))"

definition drawSegmentImages :: "wheel \<Rightarrow> wheel \<times> ctx_op list \<times> string list" where
  "drawSegmentImages w =
     (if \<not> ctx w then (w, [], [])
      else
        (let (ss, ops, logs) = draw_images (w_options w) (ctx w) (segments w) 0
         in (w\<lparr> segments := ss \<rparr>, ops, logs)))"

text \<open>
  \<open>draw(clearTheCanvas)\<close>. It returns the wheel (the segments may have got images), the
  calls on the context and the console lines, or the error thrown.
\<close>

definition Winwheel_draw :: "wheel \<Rightarrow> bool \<Rightarrow> error + wheel \<times> ctx_op list \<times> string list" where
  "Winwheel_draw w clear =
     (if \<not> ctx w then Inr (w, [], [])
      else
        (let opts = w_options w;
             cleared = (if clear then clearCanvas w else Inr []);
             (w1, drawn, logs) =
               (if w_drawMode opts = Some DRAW_MODE_IMAGE then
                  (w,
                   seq (Inr (drawWheelImage w))
                     (seq (if w_drawText opts then drawSegmentText w else Inr [])
                        (Inr (if w_imageOverlay opts then drawSegments w else []))),
                   [])
                else if w_drawMode opts = Some DRAW_MODE_SEGMENT_IMAGE then
                  (let (w', ops, logs) = drawSegmentImages w in
                   (w',
                    seq (Inr ops)
                      (seq (if w_drawText opts then drawSegmentText w' else Inr [])
                         (Inr (if w_imageOverlay opts then drawSegments w' else []))),
                    logs))
                else
                  (w,
                   seq (Inr (drawSegments w))
                     (if w_drawText opts then drawSegmentText w else Inr []),
                   []));
             rest =
               (case pins w of
                  None \<Rightarrow> []
                | Some p \<Rightarrow> (if pin_visible p then drawPins w else [])) @
               (if pg_display (pointerGuide w) then drawPointerGuide w else [])
         in case seq cleared drawn of
              Inl e \<Rightarrow> Inl e
            | Inr ops \<Rightarrow> Inr (w1, ops @ rest, logs)))"

subsection \<open>Reading a drawing\<close>

text \<open>The texts passed to \<open>fillText\<close> and to \<open>strokeText\<close>, in the order of the calls.\<close>

fun filled_texts :: "ctx_op list \<Rightarrow> string list" where
  "filled_texts [] = []"
| "filled_texts (FillText t x y # ops) = t # filled_texts ops"
| "filled_texts (_ # ops) = filled_texts ops"

fun stroked_texts :: "ctx_op list \<Rightarrow> string list" where
  "stroked_texts [] = []"
| "stroked_texts (StrokeText t x y # ops) = t # stroked_texts ops"
| "stroked_texts (_ # ops) = stroked_texts ops"

text \<open>The images passed to \<open>drawImage\<close>, in the order of the calls.\<close>

fun drawn_images :: "ctx_op list \<Rightarrow> image list" where
  "drawn_images [] = []"
| "drawn_images (DrawImage im x y w h # ops) = im # drawn_images ops"
| "drawn_images (_ # ops) = drawn_images ops"

text \<open>The image of a segment has loaded: there is image data and its height is not falsy.\<close>

definition loaded :: "segment \<Rightarrow> bool" where
  "loaded s = (case imgData (s_options s) of None \<Rightarrow> False | Some im \<Rightarrow> img_height im \<noteq> 0)"

text \<open>A segment input with a text and the three text layout options.\<close>

definition labelled :: "string \<Rightarrow> string js \<Rightarrow> string js \<Rightarrow> string js \<Rightarrow> segment_input option" where
  "labelled t orientation alignment dir =
     Some (no_segment_input\<lparr> in_text := Val t, in_textOrientation := orientation,
             in_textAlignment := alignment, in_textDirection := dir \<rparr>)"

text \<open>A segment input with image data of the given height and width 40.\<close>

definition pictured :: "string \<Rightarrow> real \<Rightarrow> segment_input option" where
  "pictured src h =
     Some (no_segment_input\<lparr> in_image := Val src,
             in_imgData := Val \<lparr> img_src = src, img_width = 40, img_height = h \<rparr> \<rparr>)"

text \<open>\<open>loaded_image\<close> is the image of a segment when it has loaded.\<close>

definition loaded_image :: "segment \<Rightarrow> image list" where
  "loaded_image s =
     (case imgData (s_options s) of
        None \<Rightarrow> []
      | Some im \<Rightarrow> (if img_height im \<noteq> 0 then [im] else []))"

text \<open>The three values of \<open>ORIENTATION\<close>.\<close>

definition known_orientation :: "string option \<Rightarrow> bool" where
  "known_orientation v \<longleftrightarrow>
     v = Some ORIENTATION_HORIZONTAL \<or> v = Some ORIENTATION_VERTICAL \<or> v = Some ORIENTATION_CURVED"

text \<open>The caller sets the draw mode of a wheel.\<close>

definition set_drawMode :: "wheel \<Rightarrow> string option \<Rightarrow> wheel" where
  "set_drawMode w m = w\<lparr> w_options := (w_options w)\<lparr> w_drawMode := m \<rparr> \<rparr>"

text \<open>What a call of \<open>draw\<close> puts on the context, or the error it throws.\<close>

definition drawing :: "error + wheel \<times> ctx_op list \<times> string list \<Rightarrow> error + ctx_op list" where
  "drawing r = (case r of Inl e \<Rightarrow> Inl e | Inr (w, ops, logs) \<Rightarrow> Inr ops)"

text \<open>
  A wheel of three segments with images, of which the first and the third have loaded
  and the second has not.
\<close>

definition picture_wheel :: wheel where
  "picture_wheel =
     (blank_wheel canvas400 3 None)
       \<lparr> segments := map new_Segment
            [pictured ''a.png'' 30, pictured ''b.png'' 0, pictured ''c.png'' 50] \<rparr>"

text \<open>
  The arguments with which \<open>drawText\<close> draws one line of curved, outer-aligned text of
  size 20 in black on the default wheel of the 400 by 400 canvas.
\<close>

definition curved_args :: "string \<Rightarrow> text_args" where
  "curved_args line =
     \<lparr> ta_line = line, ta_lineTotal = 1, ta_centerX = 200, ta_centerY = 200,
       ta_outerRadius = 199, ta_innerRadius = 0, ta_fontSize = 20, ta_margin = 200 / 17,
       ta_lineOffset = 0, ta_fillStyle = Some ''black'', ta_strokeStyle = None,
       ta_orientation = Some ''curved'', ta_alignment = Some ''outer'',
       ta_rotationAngle = 0 \<rparr>"

text \<open>
  The wheel of two segments, the first of size 1 and the second automatic, on the canvas
  of 200 by 200, and the wheel of four automatic segments on the canvas of 400 by 400, as
  the constructor builds them.
\<close>

definition narrow_wheel :: wheel where
  "narrow_wheel = projr (new_Winwheel canvas200 2 (Some [sized (Val 1), sized Null]))"

definition quarter_wheel :: wheel where
  "quarter_wheel =
     projr (new_Winwheel canvas400 4 (Some [sized Null, sized Null, sized Null, sized Null]))"

section \<open>Properties of the animation planner\<close>

lemmas constants_defs =
  DIRECTION_REVERSED_def DIRECTION_CLOCKWISE_def DIRECTION_ANTI_CLOCKWISE_def
  ORIENTATION_HORIZONTAL_def ORIENTATION_VERTICAL_def ORIENTATION_CURVED_def
  ALIGNMENT_INNER_def ALIGNMENT_OUTER_def ALIGNMENT_CENTER_def
  DRAW_MODE_CODE_def DRAW_MODE_IMAGE_def DRAW_MODE_SEGMENT_IMAGE_def
  ANIMATION_TYPE_SPIN_ONGOING_def ANIMATION_TYPE_SPIN_TO_STOP_def
  ANIMATION_TYPE_SPIN_AND_BACK_def ANIMATION_TYPE_CUSTOM_def


text \<open>
  C4. A spin-to-stop animation with spins 5, stop angle 90 and pointer angle 0 gets the
  rotation delta \<open>5 * 360 + (360 - 90 + 0) = 2070\<close> when its direction is clockwise and
  \<open>- (5 * 360) - (360 - 270) = - 1890\<close> when it is anti-clockwise.
\<close>

theorem computeAnimation_spinToStop_delta:
  assumes "atype (a_options a) = Some ANIMATION_TYPE_SPIN_TO_STOP"
    and "spins (a_options a) = Some 5"
    and "stopAngle (a_options a) = Some 90"
  shows "(direction (a_options a) = Some DIRECTION_CLOCKWISE \<longrightarrow>
            propertyValue (a_options (computeAnimation a 0 rnd)) = Some 2070) \<and>
         (direction (a_options a) = Some DIRECTION_ANTI_CLOCKWISE \<longrightarrow>
            propertyValue (a_options (computeAnimation a 0 rnd)) = Some (- 1890))"
  using assms
  by (simp add: computeAnimation_def spin_value_def constants_defs Let_def)

theorem computeAnimation_spinToStop_delta_witness:
  "propertyValue (a_options (computeAnimation
      (new_Animation (no_animation_input\<lparr> in_atype := Val ''spinToStop'',
         in_direction := Val ''clockwise'', in_spins := Val 5, in_stopAngle := Val 90 \<rparr>))
      0 (1 / 2))) = Some 2070 \<and>
   propertyValue (a_options (computeAnimation
      (new_Animation (no_animation_input\<lparr> in_atype := Val ''spinToStop'',
         in_direction := Val ''anti-clockwise'', in_spins := Val 5, in_stopAngle := Val 90 \<rparr>))
      0 (1 / 2))) = Some (- 1890)"
proof -
  let ?c = "new_Animation (no_animation_input\<lparr> in_atype := Val ''spinToStop'',
         in_direction := Val ''clockwise'', in_spins := Val 5, in_stopAngle := Val 90 \<rparr>)"
  let ?a = "new_Animation (no_animation_input\<lparr> in_atype := Val ''spinToStop'',
         in_direction := Val ''anti-clockwise'', in_spins := Val 5, in_stopAngle := Val 90 \<rparr>)"
  have c: "atype (a_options ?c) = Some ANIMATION_TYPE_SPIN_TO_STOP"
    "spins (a_options ?c) = Some 5" "stopAngle (a_options ?c) = Some 90"
    "direction (a_options ?c) = Some DIRECTION_CLOCKWISE"
    by (simp_all add: new_Animation_def no_animation_input_def constants_defs)
  have a: "atype (a_options ?a) = Some ANIMATION_TYPE_SPIN_TO_STOP"
    "spins (a_options ?a) = Some 5" "stopAngle (a_options ?a) = Some 90"
    "direction (a_options ?a) = Some DIRECTION_ANTI_CLOCKWISE"
    by (simp_all add: new_Animation_def no_animation_input_def constants_defs)
  from computeAnimation_spinToStop_delta [OF c(1-3), of "1 / 2"] c(4)
  have "propertyValue (a_options (computeAnimation ?c 0 (1 / 2))) = Some 2070" by blast
  moreover from computeAnimation_spinToStop_delta [OF a(1-3), of "1 / 2"] a(4)
  have "propertyValue (a_options (computeAnimation ?a 0 (1 / 2))) = Some (- 1890)" by blast
  ultimately show ?thesis by blast
qed

text \<open>
  C5. A spin-and-back animation whose caller sets nothing but the type gets repeat 1, the
  accelerate-decelerate easing and the resolved stop angle 0. Its \<open>yoyo\<close> stays false:
  the constructor has already filled in the default \<open>false\<close>, so the test for a nil
  \<open>yoyo\<close> that would set it to true does not fire.
\<close>

theorem computeAnimation_spinAndBack_unset:
  "(let a = computeAnimation
              (new_Animation (no_animation_input\<lparr> in_atype := Val ''spinAndBack'' \<rparr>)) p rnd
    in (repeat (a_options a), easing (a_options a), yoyo (a_options a), a_stopAngle a)) =
   (Some 1, Some ''Power2.easeInOut'', Some False, Some 0)"
  by (simp add: computeAnimation_def new_Animation_def no_animation_input_def
      animation_defaultOptions_def constants_defs Let_def)

section \<open>Properties of the rotation\<close>







section \<open>Properties of the segment sizes\<close>

lemma arc_used_acc:
  "arc_used ss (a, n) = (a + fst (arc_used ss (0, 0)), n + snd (arc_used ss (0, 0)))"
proof (induction ss arbitrary: a n)
  case Nil
  show ?case by simp
next
  case (Cons s ss)
  show ?case
    using Cons.IH [of "a + num_of (s_size (s_options s))" "n + 1"]
      Cons.IH [of "num_of (s_size (s_options s))" 1] Cons.IH [of a n]
    by simp
qed

lemma arc_used_Cons:
  "arc_used (s # ss) (0, 0) =
     (if truthy_num (s_size (s_options s))
      then (num_of (s_size (s_options s)) + fst (arc_used ss (0, 0)), 1 + snd (arc_used ss (0, 0)))
      else arc_used ss (0, 0))"
  using arc_used_acc [of ss "num_of (s_size (s_options s))" 1] by simp

lemma numSet_le: "snd (arc_used ss (0, 0)) \<le> length ss"
  by (induction ss) (simp_all add: arc_used_Cons del: arc_used.simps(2))

lemma numSet_less:
  "\<exists>s \<in> set ss. \<not> truthy_num (s_size (s_options s)) \<Longrightarrow> snd (arc_used ss (0, 0)) < length ss"
proof (induction ss)
  case Nil
  then show ?case by simp
next
  case (Cons s ss)
  then show ?case
    using numSet_le [of ss] by (auto simp add: arc_used_Cons simp del: arc_used.simps(2))
qed

lemma width_Some: "\<exists>x. (if truthy_num v then v else Some de) = Some x"
  by (cases v) auto

lemma set_angles_Some:
  "\<exists>ss'. set_angles ss (Some de) cur = Some ss' \<and> length ss' = length ss"
proof (induction ss arbitrary: cur)
  case Nil
  show ?case by simp
next
  case (Cons s ss)
  obtain x where x: "(if truthy_num (s_size (s_options s)) then s_size (s_options s) else Some de) = Some x"
    using width_Some by blast
  from Cons [of "cur + x"] x show ?case by auto
qed

lemma set_angles_length: "set_angles ss de cur = Some ss' \<Longrightarrow> length ss' = length ss"
  by (induction ss arbitrary: cur ss') (auto split: option.splits if_splits)

lemma set_angles_hd:
  "set_angles ss de cur = Some ss' \<Longrightarrow> ss \<noteq> [] \<Longrightarrow> startAngle (hd ss') = cur"
  by (cases ss) (auto simp: setAngle_def split: option.splits if_splits)

lemma set_angles_last:
  "set_angles ss (Some de) cur = Some ss' \<Longrightarrow> ss \<noteq> [] \<Longrightarrow>
     endAngle (last ss') =
       cur + fst (arc_used ss (0, 0)) + (real (length ss) - real (snd (arc_used ss (0, 0)))) * de"
proof (induction ss arbitrary: cur ss')
  case Nil
  then show ?case by simp
next
  case (Cons s ss)
  obtain x where x: "(if truthy_num (s_size (s_options s)) then s_size (s_options s) else Some de) = Some x"
    using width_Some by blast
  with Cons.prems obtain t where t: "set_angles ss (Some de) (cur + x) = Some t"
    and ss': "ss' = setAngle s (Some cur) (Some (cur + x)) # t"
    by (auto split: option.splits)
  show ?case
  proof (cases "ss = []")
    case True
    with t ss' x show ?thesis
      by (auto simp add: setAngle_def arc_used_Cons simp del: arc_used.simps(2) split: if_splits)
  next
    case False
    with t have "t \<noteq> []" using set_angles_length by fastforce
    with Cons.IH [OF t False] ss' x show ?thesis
      by (auto simp add: arc_used_Cons algebra_simps simp del: arc_used.simps(2) split: if_splits)
  qed
qed

lemma set_angles_contiguous:
  "set_angles ss de cur = Some ss' \<Longrightarrow> Suc i < length ss' \<Longrightarrow>
     endAngle (ss' ! i) = startAngle (ss' ! Suc i)"
proof (induction ss arbitrary: cur ss' i)
  case Nil
  then show ?case by simp
next
  case (Cons s ss)
  from Cons.prems obtain x t where t: "set_angles ss de (cur + x) = Some t"
    and ss': "ss' = setAngle s (Some cur) (Some (cur + x)) # t"
    by (auto split: option.splits)
  show ?case
  proof (cases i)
    case 0
    from Cons.prems ss' have "t \<noteq> []" using 0 by auto
    then have "ss \<noteq> []" using t by auto
    from set_angles_hd [OF t this] ss' 0 \<open>t \<noteq> []\<close> show ?thesis
      by (simp add: setAngle_def hd_conv_nth)
  next
    case (Suc j)
    with Cons.IH [OF t, of j] Cons.prems ss' show ?thesis by simp
  qed
qed

lemma set_angles_monotone:
  "set_angles ss (Some de) cur = Some ss' \<Longrightarrow> 0 \<le> de \<Longrightarrow>
   \<forall>s \<in> set ss. 0 \<le> num_of (s_size (s_options s)) \<Longrightarrow> i < length ss' \<Longrightarrow>
     startAngle (ss' ! i) \<le> endAngle (ss' ! i)"
proof (induction ss arbitrary: cur ss' i)
  case Nil
  then show ?case by simp
next
  case (Cons s ss)
  obtain x where x: "(if truthy_num (s_size (s_options s)) then s_size (s_options s) else Some de) = Some x"
    using width_Some by blast
  with Cons.prems obtain t where t: "set_angles ss (Some de) (cur + x) = Some t"
    and ss': "ss' = setAngle s (Some cur) (Some (cur + x)) # t"
    by (auto split: option.splits)
  from x Cons.prems(2,3) have "0 \<le> x" by (auto split: if_splits)
  show ?case
  proof (cases i)
    case 0
    with ss' \<open>0 \<le> x\<close> show ?thesis by (simp add: setAngle_def)
  next
    case (Suc j)
    with Cons.IH [OF t, of j] Cons.prems ss' show ?thesis by simp
  qed
qed

text \<open>
  C1, as the code has it. Take a wheel with at least one segment whose \<open>numSegments\<close> is
  the number of its segments, whose set sizes are not negative and add up to at most 360,
  and in which either the set sizes add up to exactly 360 or some segment has no set size.
  Then \<open>updateSegmentSizes\<close> gives spans that start at 0, end at 360, are contiguous, and
  do not decrease in array order.
\<close>

theorem updateSegmentSizes_partition:
  assumes ne: "segments w \<noteq> []"
    and n: "w_numSegments (w_options w) = int (length (segments w))"
    and pos: "\<forall>s \<in> set (segments w). 0 \<le> num_of (s_size (s_options s))"
    and le: "fst (arc_used (segments w) (0, 0)) \<le> 360"
    and fill: "fst (arc_used (segments w) (0, 0)) = 360 \<or>
               (\<exists>s \<in> set (segments w). \<not> truthy_num (s_size (s_options s)))"
  shows "\<exists>w'. updateSegmentSizes w = Inr w' \<and>
           length (segments w') = length (segments w) \<and>
           startAngle (hd (segments w')) = 0 \<and>
           endAngle (last (segments w')) = 360 \<and>
           (\<forall>i. Suc i < length (segments w') \<longrightarrow>
                endAngle (segments w' ! i) = startAngle (segments w' ! Suc i)) \<and>
           (\<forall>i < length (segments w'). startAngle (segments w' ! i) \<le> endAngle (segments w' ! i))"
proof -
  let ?ss = "segments w"
  let ?used = "fst (arc_used ?ss (0, 0))"
  let ?k = "snd (arc_used ?ss (0, 0))"
  have kle: "?k \<le> length ?ss" by (rule numSet_le)
  obtain de where de: "degrees_each (360 - ?used) (w_numSegments (w_options w)) ?k = Some de"
    and de0: "0 \<le> de"
    and tot: "?used + (real (length ?ss) - real ?k) * de = 360"
  proof (cases "?used = 360")
    case True
    show ?thesis
      by (rule that [of 0]) (simp_all add: degrees_each_def True)
  next
    case False
    with fill have "?k < length ?ss" using numSet_less by blast
    moreover from False le have "360 - ?used > 0" by simp
    ultimately show ?thesis
      by (intro that [of "(360 - ?used) / (real (length ?ss) - real ?k)"])
         (simp_all add: degrees_each_def n of_nat_diff)
  qed
  obtain ss' where ss': "set_angles ?ss (Some de) 0 = Some ss'" and len: "length ss' = length ?ss"
    using set_angles_Some by blast
  have upd: "updateSegmentSizes w = Inr (w\<lparr> segments := ss' \<rparr>)"
    using ne de ss' by (simp add: updateSegmentSizes_def case_prod_beta)
  show ?thesis
    using upd len set_angles_hd [OF ss' ne] set_angles_last [OF ss' ne] tot
      set_angles_contiguous [OF ss'] set_angles_monotone [OF ss' de0 pos]
    by simp
qed

lemmas wheel_eval =
  blank_wheel_def winwheel_defaultOptions_def new_Winwheel_def initiateSegments_def
  updateSegmentSizes_def spans_of_def sized_def segment_input_at_def new_Segment_def
  no_segment_input_def segment_defaultOptions_def degrees_each_def setAngle_def

theorem updateSegmentSizes_partition_witness:
  "segments mixed_wheel \<noteq> [] \<and>
   w_numSegments (w_options mixed_wheel) = int (length (segments mixed_wheel)) \<and>
   fst (arc_used (segments mixed_wheel) (0, 0)) = 160 \<and>
   map_sum id spans_of (updateSegmentSizes mixed_wheel) = Inr [(0, 100), (100, 300), (300, 360)] \<and>
   (\<exists>w'. updateSegmentSizes mixed_wheel = Inr w' \<and>
      length (segments w') = length (segments mixed_wheel) \<and>
      startAngle (hd (segments w')) = 0 \<and>
      endAngle (last (segments w')) = 360 \<and>
      (\<forall>i. Suc i < length (segments w') \<longrightarrow>
           endAngle (segments w' ! i) = startAngle (segments w' ! Suc i)) \<and>
      (\<forall>i < length (segments w'). startAngle (segments w' ! i) \<le> endAngle (segments w' ! i)))"
proof -
  have h1: "segments mixed_wheel \<noteq> []"
    by (simp add: mixed_wheel_def)
  have h2: "w_numSegments (w_options mixed_wheel) = int (length (segments mixed_wheel))"
    by (simp add: mixed_wheel_def blank_wheel_def)
  have h3: "\<forall>s \<in> set (segments mixed_wheel). 0 \<le> num_of (s_size (s_options s))"
    by (simp add: mixed_wheel_def wheel_eval)
  have u: "fst (arc_used (segments mixed_wheel) (0, 0)) = 160"
    by (simp add: mixed_wheel_def wheel_eval)
  then have h4: "fst (arc_used (segments mixed_wheel) (0, 0)) \<le> 360"
    by simp
  have h5: "fst (arc_used (segments mixed_wheel) (0, 0)) = 360 \<or>
      (\<exists>s \<in> set (segments mixed_wheel). \<not> truthy_num (s_size (s_options s)))"
    by (simp add: mixed_wheel_def wheel_eval)
  have ev: "map_sum id spans_of (updateSegmentSizes mixed_wheel) =
      Inr [(0, 100), (100, 300), (300, 360)]"
    by (simp add: mixed_wheel_def wheel_eval)
  from updateSegmentSizes_partition [OF h1 h2 h3 h4 h5] h1 h2 u ev
  show ?thesis by blast
qed

text \<open>
  Two segments of the set sizes 100 and 200 add up to 300, which is at most 360; no arc is
  shared out, and the last segment ends at 300.
\<close>

theorem updateSegmentSizes_all_set_counterexample:
  "map_sum id spans_of (new_Winwheel canvas400 2 (Some [sized (Val 100), sized (Val 200)])) =
     Inr [(0, 100), (100, 300)] \<and>
   map_sum id (\<lambda>w. endAngle (last (segments w)))
     (new_Winwheel canvas400 2 (Some [sized (Val 100), sized (Val 200)])) \<noteq> Inr 360"
  by (simp add: wheel_eval upt_rec)

text \<open>
  C2. A wheel built with four segments of no set size has the spans 0 to 90, 90 to 180,
  180 to 270 and 270 to 360. \<open>deleteSegment\<close> with position 1 then leaves one segment,
  the one that was to be removed, with the span 0 to 120: the wheel keeps what \<open>pullAt\<close>
  returns, which is the removed element, while \<open>numSegments\<close> goes to 3.
\<close>

theorem deleteSegment_keeps_removed:
  "\<exists>w4. new_Winwheel canvas400 4 (Some [sized Null, sized Null, sized Null, sized Null]) = Inr w4 \<and>
      spans_of w4 = [(0, 90), (90, 180), (180, 270), (270, 360)] \<and>
      map_sum id spans_of (deleteSegment w4 (Some 1)) = Inr [(0, 120)]"
  by (simp add: wheel_eval upt_rec deleteSegment_def pullAt_def)

section \<open>Properties of the text loops\<close>

lemma down_loop_neg: "c < 0 \<Longrightarrow> down_loop c body v inc = []"
  by (simp add: down_loop.simps)

lemma down_loop_step:
  "0 \<le> c \<Longrightarrow> down_loop c body v inc = body c v @ down_loop (c - 1) body (v + inc) inc"
  by (subst down_loop.simps) simp

lemma rev_upt_Suc: "rev [0 ..< Suc (Suc n)] = Suc n # rev [0 ..< Suc n]"
  by simp

lemma down_loop_unroll:
  "down_loop (int n) body v inc =
     concat (map (\<lambda>c. body (int c) (v + real (n - c) * inc)) (rev [0 ..< Suc n]))"
proof (induction n arbitrary: v)
  case 0
  show ?case by (simp add: down_loop_step down_loop_neg)
next
  case (Suc n)
  have "down_loop (int (Suc n)) body v inc =
          body (int (Suc n)) v @ down_loop (int n) body (v + inc) inc"
    by (subst down_loop_step) simp_all
  also have "down_loop (int n) body (v + inc) inc =
          concat (map (\<lambda>c. body (int c) (v + inc + real (n - c) * inc)) (rev [0 ..< Suc n]))"
    by (rule Suc.IH)
  also have "map (\<lambda>c. body (int c) (v + inc + real (n - c) * inc)) (rev [0 ..< Suc n]) =
             map (\<lambda>c. body (int c) (v + real (Suc n - c) * inc)) (rev [0 ..< Suc n])"
    by (rule map_cong) (auto simp: Suc_diff_le algebra_simps)
  finally show ?case
    unfolding rev_upt_Suc by simp
qed

lemma count_Save_curved_char: "count_list (curved_char a fin y c v) Save = 1"
  by (simp add: curved_char_def rotate_about_def stroke_fill_def)

lemma filled_texts_append: "filled_texts (xs @ ys) = filled_texts xs @ filled_texts ys"
  by (induction xs rule: filled_texts.induct) simp_all

lemma stroked_texts_append: "stroked_texts (xs @ ys) = stroked_texts xs @ stroked_texts ys"
  by (induction xs rule: stroked_texts.induct) simp_all

lemma filled_texts_curved_char:
  "filled_texts (curved_char a fin y c v) =
     (if truthy_str (ta_fillStyle a) then [charAt (ta_line a) c] else [])"
  by (simp add: curved_char_def rotate_about_def stroke_fill_def filled_texts_append)

lemma stroked_texts_curved_char:
  "stroked_texts (curved_char a fin y c v) =
     (if truthy_str (ta_strokeStyle a) then [charAt (ta_line a) c] else [])"
  by (simp add: curved_char_def rotate_about_def stroke_fill_def stroked_texts_append)

lemma count_list_concat_map:
  "(\<And>x. x \<in> set xs \<Longrightarrow> count_list (f x) y = 1) \<Longrightarrow> count_list (concat (map f xs)) y = length xs"
  by (induction xs) simp_all

lemma filled_texts_concat_map:
  "filled_texts (concat (map f xs)) = concat (map (\<lambda>x. filled_texts (f x)) xs)"
  by (induction xs) (simp_all add: filled_texts_append)

lemma stroked_texts_concat_map:
  "stroked_texts (concat (map f xs)) = concat (map (\<lambda>x. stroked_texts (f x)) xs)"
  by (induction xs) (simp_all add: stroked_texts_append)

lemma concat_map_single: "concat (map (\<lambda>x. [f x]) xs) = map f xs"
  by (induction xs) simp_all

lemma drawTextReversed_curved_form:
  assumes "ta_orientation a = Some ORIENTATION_CURVED"
  shows "\<exists>B T F Y V I. drawTextReversed s a =
           Inr (B @ [SetTextAlign T] @
                down_loop (int (length (ta_line a))) (curved_char a F Y) V I) \<and>
           (B = [] \<or> (\<exists>t. B = [SetTextBaseline t]))"
proof -
  have n: "(Some ORIENTATION_CURVED = Some ORIENTATION_HORIZONTAL) = False"
    "(Some ORIENTATION_CURVED = Some ORIENTATION_VERTICAL) = False"
    by (simp_all add: ORIENTATION_CURVED_def ORIENTATION_HORIZONTAL_def ORIENTATION_VERTICAL_def)
  show ?thesis
    apply (simp only: drawTextReversed_def Let_def assms n if_False refl if_True)
    apply (intro exI conjI)
     apply (rule refl)
    apply auto
    done
qed

text \<open>
  C9. For a line of curved text drawn in reversed direction, the character loop runs
  through the indices from the length of the line down to 0: it saves the context once for
  each of its length + 1 rounds, the characters it draws are those read at these indices
  in this order, and the first of them, read one index past the last character, is the
  empty string.
\<close>

theorem drawTextReversed_curved_reads:
  assumes "ta_orientation a = Some ORIENTATION_CURVED"
  shows "\<exists>ops. drawTextReversed s a = Inr ops \<and>
           count_list ops Save = length (ta_line a) + 1 \<and>
           (truthy_str (ta_fillStyle a) \<longrightarrow>
              filled_texts ops =
                map (\<lambda>c. charAt (ta_line a) (int c)) (rev [0 ..< length (ta_line a) + 1])) \<and>
           (truthy_str (ta_strokeStyle a) \<longrightarrow>
              stroked_texts ops =
                map (\<lambda>c. charAt (ta_line a) (int c)) (rev [0 ..< length (ta_line a) + 1])) \<and>
           charAt (ta_line a) (int (length (ta_line a))) = []"
proof -
  from drawTextReversed_curved_form [OF assms, of s]
  obtain B T F Y V I where r: "drawTextReversed s a =
      Inr (B @ [SetTextAlign T] @ down_loop (int (length (ta_line a))) (curved_char a F Y) V I)"
    and B: "B = [] \<or> (\<exists>t. B = [SetTextBaseline t])"
    by blast
  let ?ops = "B @ [SetTextAlign T] @ down_loop (int (length (ta_line a))) (curved_char a F Y) V I"
  from B have pre: "count_list B Save = 0" "filled_texts B = []" "stroked_texts B = []"
    by auto
  have 1: "count_list ?ops Save = length (ta_line a) + 1"
    by (simp add: pre down_loop_unroll count_list_concat_map count_Save_curved_char del: upt_Suc)
  have 2: "truthy_str (ta_fillStyle a) \<longrightarrow>
      filled_texts ?ops = map (\<lambda>c. charAt (ta_line a) (int c)) (rev [0 ..< length (ta_line a) + 1])"
    by (simp add: pre filled_texts_append down_loop_unroll filled_texts_concat_map
        filled_texts_curved_char concat_map_single del: upt_Suc)
  have 3: "truthy_str (ta_strokeStyle a) \<longrightarrow>
      stroked_texts ?ops = map (\<lambda>c. charAt (ta_line a) (int c)) (rev [0 ..< length (ta_line a) + 1])"
    by (simp add: pre stroked_texts_append down_loop_unroll stroked_texts_concat_map
        stroked_texts_curved_char concat_map_single del: upt_Suc)
  have 4: "charAt (ta_line a) (int (length (ta_line a))) = []"
    by (simp add: charAt_def)
  from r 1 2 3 4 show ?thesis by blast
qed


theorem drawTextReversed_curved_reads_witness:
  "ta_orientation (curved_args ''AB'') = Some ORIENTATION_CURVED \<and>
   (\<exists>ops. drawTextReversed (new_Segment None) (curved_args ''AB'') = Inr ops \<and>
      count_list ops Save = 3 \<and>
      filled_texts ops = [[], ''B'', ''A''])"
proof -
  have h: "ta_orientation (curved_args ''AB'') = Some ORIENTATION_CURVED"
    by (simp add: curved_args_def ORIENTATION_CURVED_def)
  have f: "truthy_str (ta_fillStyle (curved_args ''AB''))"
    by (simp add: curved_args_def)
  have l: "ta_line (curved_args ''AB'') = ''AB''"
    by (simp add: curved_args_def)
  have r: "map (\<lambda>c. charAt ''AB'' (int c)) (rev [0 ..< length ''AB'' + 1]) = [[], ''B'', ''A'']"
    by (simp add: charAt_def upt_rec)
  from drawTextReversed_curved_reads [OF h, of "new_Segment None"] f
  show ?thesis
    unfolding l r using h by auto
qed

section \<open>Properties of the segment images\<close>

lemma drawn_images_append: "drawn_images (xs @ ys) = drawn_images xs @ drawn_images ys"
  by (induction xs rule: drawn_images.induct) simp_all

lemma drawImage_unloaded:
  "\<not> loaded s \<Longrightarrow>
     snd (Segment_drawImage s True cx cy sf rot dd) = Inl (Error ''imgData is not loaded'')"
  by (auto simp: Segment_drawImage_def loaded_def renderImage_def Let_def split: option.splits)

lemma drawImage_loaded:
  "loaded s \<Longrightarrow>
     \<exists>d. snd (Segment_drawImage s True cx cy sf rot dd) = Inr d \<and>
          drawn_images d = (case imgData (s_options s) of None \<Rightarrow> [] | Some im \<Rightarrow> [im])"
  by (auto simp: Segment_drawImage_def loaded_def Let_def rotate_about_def
      split: option.splits prod.splits)

lemma draw_images_result:
  "draw_images opts True ss i = (ss', ops, logs) \<Longrightarrow>
     logs = concat (map (\<lambda>(k, s). if loaded s then []
                          else [''Segment '' @ string_of_nat k @ '': imgData is not loaded''])
                     (enumerate i ss)) \<and>
     drawn_images ops = concat (map loaded_image ss)"
proof (induction ss arbitrary: i ss' ops logs)
  case Nil
  then show ?case by simp
next
  case (Cons s ss)
  obtain s1 r where d: "Segment_drawImage s True
      (w_centerX opts * w_scaleFactor opts) (w_centerY opts * w_scaleFactor opts)
      (w_scaleFactor opts) (w_rotationAngle opts) (w_imageDirection opts) = (s1, r)"
    by (cases "Segment_drawImage s True
      (w_centerX opts * w_scaleFactor opts) (w_centerY opts * w_scaleFactor opts)
      (w_scaleFactor opts) (w_rotationAngle opts) (w_imageDirection opts)")
  obtain t tops tlogs where t: "draw_images opts True ss (i + 1) = (t, tops, tlogs)"
    by (cases "draw_images opts True ss (i + 1)")
  from d have sr: "snd (Segment_drawImage s True
      (w_centerX opts * w_scaleFactor opts) (w_centerY opts * w_scaleFactor opts)
      (w_scaleFactor opts) (w_rotationAngle opts) (w_imageDirection opts)) = r"
    by simp
  note ih = Cons.IH [OF t]
  show ?case
  proof (cases "loaded s")
    case True
    from drawImage_loaded [OF True] sr obtain dr where r: "r = Inr dr"
      and dr: "drawn_images dr = (case imgData (s_options s) of None \<Rightarrow> [] | Some im \<Rightarrow> [im])"
      by metis
    from True have li: "loaded_image s = (case imgData (s_options s) of None \<Rightarrow> [] | Some im \<Rightarrow> [im])"
      by (auto simp: loaded_image_def loaded_def split: option.splits)
    from Cons.prems d t r have "logs = tlogs" "ops = dr @ tops" by simp_all
    with ih True dr li show ?thesis by (simp add: drawn_images_append)
  next
    case False
    from drawImage_unloaded [OF False] sr have r: "r = Inl (Error ''imgData is not loaded'')"
      by metis
    from False have li: "loaded_image s = []"
      by (auto simp: loaded_image_def loaded_def split: option.splits)
    from Cons.prems d t r
    have "logs = (''Segment '' @ string_of_nat i @ '': imgData is not loaded'') # tlogs" "ops = tops"
      by simp_all
    with ih False li show ?thesis by simp
  qed
qed

text \<open>
  C8. Drawing the image of a segment on a context before the image has loaded raises
  "imgData is not loaded". The loop of \<open>drawSegmentImages\<close> writes one console line
  for each such segment, with its index, and goes on: the images it draws are those of
  the loaded segments, all of them, in array order.
\<close>

theorem drawSegmentImages_catches_unloaded:
  assumes "ctx w"
  shows "(\<forall>s \<in> set (segments w). \<not> loaded s \<longrightarrow>
            snd (Segment_drawImage s True cx cy sf rot dd) = Inl (Error ''imgData is not loaded'')) \<and>
         (\<exists>w' ops logs. drawSegmentImages w = (w', ops, logs) \<and>
            logs = concat (map (\<lambda>(k, s). if loaded s then []
                                 else [''Segment '' @ string_of_nat k @ '': imgData is not loaded''])
                            (enumerate 0 (segments w))) \<and>
            drawn_images ops = concat (map loaded_image (segments w)))"
proof -
  obtain ss ops logs where d: "draw_images (w_options w) True (segments w) 0 = (ss, ops, logs)"
    by (cases "draw_images (w_options w) True (segments w) 0")
  with assms have "drawSegmentImages w = (w\<lparr> segments := ss \<rparr>, ops, logs)"
    by (simp add: drawSegmentImages_def)
  with draw_images_result [OF d] drawImage_unloaded show ?thesis by blast
qed

lemma string_of_nat_1: "string_of_nat (Suc 0) = ''1''"
  by (simp add: string_of_nat.simps digit_def)

theorem drawSegmentImages_catches_unloaded_witness:
  "ctx picture_wheel \<and>
   (\<exists>w' ops. drawSegmentImages picture_wheel =
        (w', ops, [''Segment 1: imgData is not loaded'']) \<and>
      drawn_images ops =
        [\<lparr> img_src = ''a.png'', img_width = 40, img_height = 30 \<rparr>,
         \<lparr> img_src = ''c.png'', img_width = 40, img_height = 50 \<rparr>])"
proof -
  have c: "ctx picture_wheel" by (simp add: picture_wheel_def blank_wheel_def)
  have e: "enumerate 0 (segments picture_wheel) =
      [(0, new_Segment (pictured ''a.png'' 30)), (1, new_Segment (pictured ''b.png'' 0)),
       (2, new_Segment (pictured ''c.png'' 50))]"
    by (simp add: picture_wheel_def enumerate_eq_zip upt_rec)
  have l: "loaded (new_Segment (pictured ''a.png'' 30))" "\<not> loaded (new_Segment (pictured ''b.png'' 0))"
    "loaded (new_Segment (pictured ''c.png'' 50))"
    by (simp_all add: loaded_def new_Segment_def pictured_def no_segment_input_def)
  have i: "map loaded_image (segments picture_wheel) =
      [[\<lparr> img_src = ''a.png'', img_width = 40, img_height = 30 \<rparr>], [],
       [\<lparr> img_src = ''c.png'', img_width = 40, img_height = 50 \<rparr>]]"
    by (simp add: picture_wheel_def loaded_image_def new_Segment_def pictured_def no_segment_input_def)
  from drawSegmentImages_catches_unloaded [OF c]
  obtain w' ops logs where "drawSegmentImages picture_wheel = (w', ops, logs)"
    and "logs = concat (map (\<lambda>(k, s). if loaded s then []
                                 else [''Segment '' @ string_of_nat k @ '': imgData is not loaded''])
                            (enumerate 0 (segments picture_wheel)))"
    and "drawn_images ops = concat (map loaded_image (segments picture_wheel))"
    by blast
  with c show ?thesis
    unfolding e i by (simp add: l string_of_nat_1)
qed


section \<open>Properties of the enum options\<close>

lemma drawTextNormal_unknown:
  "\<not> known_orientation (ta_orientation a) \<Longrightarrow>
     drawTextNormal s a = Inl (Error (''Invalid orientation '' @ show_str (ta_orientation a)))"
  by (simp add: drawTextNormal_def known_orientation_def Let_def)

lemma drawTextReversed_unknown:
  "\<not> known_orientation (ta_orientation a) \<Longrightarrow>
     drawTextReversed s a = Inl (Error (''Invalid orientation: '' @ show_str (ta_orientation a)))"
  by (simp add: drawTextReversed_def known_orientation_def Let_def)

lemma split_lines_Cons: "\<exists>l ls. split_lines t = l # ls"
  by (induction t) (auto split: list.splits)

lemma draw_lines_unknown:
  assumes "\<not> known_orientation (ta_orientation a)"
  shows "draw_lines s a reversed (l # ls) off =
     Inl (Error ((if reversed then ''Invalid orientation: '' else ''Invalid orientation '') @
                 show_str (ta_orientation a)))"
  using assms drawTextNormal_unknown [of "a\<lparr> ta_line := l, ta_lineOffset := off \<rparr>" s]
    drawTextReversed_unknown [of "a\<lparr> ta_line := l, ta_lineOffset := off \<rparr>" s]
  by (simp add: seq_def)

lemma Segment_drawText_unknown:
  assumes t: "truthy_str (s_text (s_options s))"
    and u: "\<not> known_orientation (or_str (textOrientation (s_options s)) (w_textOrientation opts))"
  shows "Segment_drawText s cx cy orad irad opts =
     Inl (Error ((if or_str (textDirection (s_options s)) (w_textDirection opts) = Some DIRECTION_REVERSED
                  then ''Invalid orientation: '' else ''Invalid orientation '') @
                 show_str (or_str (textOrientation (s_options s)) (w_textOrientation opts))))"
proof -
  obtain l ls where l: "split_lines (show_str (s_text (s_options s))) = l # ls"
    using split_lines_Cons by blast
  show ?thesis
    using t u
    by (simp add: Segment_drawText_def Let_def l seq_def draw_lines_unknown del: draw_lines.simps)
qed

lemma draw_lines_angles:
  fixes s s' :: segment
  assumes "startAngle s' = startAngle s" "endAngle s' = endAngle s"
  shows "draw_lines s' a False ls off = draw_lines s a False ls off"
proof -
  have "drawTextNormal s' = drawTextNormal s"
    unfolding drawTextNormal_def mid_angle_def by (simp only: assms)
  then show ?thesis
    by (induction ls arbitrary: off) simp_all
qed

lemma Segment_drawText_direction:
  assumes "or_str (textDirection (s_options s)) (w_textDirection opts) \<noteq> Some DIRECTION_REVERSED"
  shows "Segment_drawText s cx cy orad irad opts =
         Segment_drawText (s\<lparr> s_options := (s_options s)\<lparr> textDirection := Some ''normal'' \<rparr> \<rparr>)
           cx cy orad irad opts"
proof (cases "truthy_str (s_text (s_options s))")
  case False
  then show ?thesis by (simp add: Segment_drawText_def)
next
  case True
  have n: "or_str (Some ''normal'') (w_textDirection opts) \<noteq> Some DIRECTION_REVERSED"
    by (simp add: or_str_def DIRECTION_REVERSED_def)
  have dl: "\<And>a ls off.
      draw_lines (s\<lparr> s_options := (s_options s)\<lparr> textDirection := Some ''normal'' \<rparr> \<rparr>) a False ls off =
      draw_lines s a False ls off"
    by (rule draw_lines_angles) simp_all
  show ?thesis
    using assms n True
    by (simp add: Segment_drawText_def Let_def dl split del: if_split)
qed

lemma Segment_drawText_opts:
  "Segment_drawText s cx cy orad irad (opts\<lparr> w_drawMode := m \<rparr>) =
   Segment_drawText s cx cy orad irad opts"
  unfolding Segment_drawText_def by (simp cong: if_cong split del: if_split)

lemma draw_texts_opts:
  "draw_texts (opts\<lparr> w_drawMode := m \<rparr>) ss = draw_texts opts ss"
  by (induction ss) (simp_all add: Segment_drawText_opts)

lemma Segment_draw_opts:
  "Segment_draw s c cx cy ir orad (opts\<lparr> w_drawMode := m \<rparr>) = Segment_draw s c cx cy ir orad opts"
  by (simp add: Segment_draw_def)

lemma Pin_draw_opts:
  "Pin_draw p cx cy orad (opts\<lparr> w_drawMode := m \<rparr>) = Pin_draw p cx cy orad opts"
  by (simp add: Pin_draw_def)

lemma drawSegments_mode: "drawSegments (set_drawMode w m) = drawSegments w"
  by (simp add: drawSegments_def set_drawMode_def Segment_draw_opts Let_def)

lemma drawSegmentText_mode: "drawSegmentText (set_drawMode w m) = drawSegmentText w"
  by (simp add: drawSegmentText_def set_drawMode_def draw_texts_opts)

lemma clearCanvas_mode: "clearCanvas (set_drawMode w m) = clearCanvas w"
  by (simp add: clearCanvas_def set_drawMode_def)

lemma drawPins_mode: "drawPins (set_drawMode w m) = drawPins w"
  by (cases "pins w") (simp_all add: drawPins_def set_drawMode_def Pin_draw_opts Let_def)

lemma drawPointerGuide_mode: "drawPointerGuide (set_drawMode w m) = drawPointerGuide w"
  by (simp add: drawPointerGuide_def set_drawMode_def Let_def)

lemma set_drawMode_fields:
  "ctx (set_drawMode w m) = ctx w" "pins (set_drawMode w m) = pins w"
  "pointerGuide (set_drawMode w m) = pointerGuide w"
  "w_drawText (w_options (set_drawMode w m)) = w_drawText (w_options w)"
  "w_drawMode (w_options (set_drawMode w m)) = m"
  by (simp_all add: set_drawMode_def)

lemma Winwheel_draw_code:
  assumes "w_drawMode (w_options w) \<noteq> Some DRAW_MODE_IMAGE"
    and "w_drawMode (w_options w) \<noteq> Some DRAW_MODE_SEGMENT_IMAGE"
    and "ctx w"
  shows "Winwheel_draw w c =
     (case seq (if c then clearCanvas w else Inr [])
             (seq (Inr (drawSegments w)) (if w_drawText (w_options w) then drawSegmentText w else Inr [])) of
        Inl e \<Rightarrow> Inl e
      | Inr ops \<Rightarrow>
          Inr (w, ops @
                 (case pins w of None \<Rightarrow> [] | Some p \<Rightarrow> (if pin_visible p then drawPins w else [])) @
                 (if pg_display (pointerGuide w) then drawPointerGuide w else []), []))"
  unfolding Winwheel_draw_def Let_def
  by (simp only: assms if_False if_True not_True_eq_False case_prod_conv)

lemma Winwheel_draw_mode:
  assumes "w_drawMode (w_options w) \<noteq> Some DRAW_MODE_IMAGE"
    and "w_drawMode (w_options w) \<noteq> Some DRAW_MODE_SEGMENT_IMAGE"
  shows "drawing (Winwheel_draw w c) = drawing (Winwheel_draw (set_drawMode w (Some DRAW_MODE_CODE)) c)"
proof (cases "ctx w")
  case False
  then show ?thesis by (simp add: Winwheel_draw_def drawing_def set_drawMode_fields)
next
  case True
  let ?v = "set_drawMode w (Some DRAW_MODE_CODE)"
  let ?r = "seq (if c then clearCanvas w else Inr [])
      (seq (Inr (drawSegments w)) (if w_drawText (w_options w) then drawSegmentText w else Inr []))"
  have m: "w_drawMode (w_options ?v) \<noteq> Some DRAW_MODE_IMAGE"
    "w_drawMode (w_options ?v) \<noteq> Some DRAW_MODE_SEGMENT_IMAGE"
    by (simp_all add: set_drawMode_fields DRAW_MODE_CODE_def DRAW_MODE_IMAGE_def DRAW_MODE_SEGMENT_IMAGE_def)
  have t: "ctx ?v"
    using True by (simp add: set_drawMode_fields)
  have eq: "seq (if c then clearCanvas ?v else Inr [])
      (seq (Inr (drawSegments ?v)) (if w_drawText (w_options ?v) then drawSegmentText ?v else Inr [])) = ?r"
    by (simp only: set_drawMode_fields drawSegments_mode drawSegmentText_mode clearCanvas_mode)
  show ?thesis
    unfolding Winwheel_draw_code [OF assms True] Winwheel_draw_code [OF m t] eq
    by (cases ?r)
       (simp_all add: drawing_def set_drawMode_fields drawPins_mode drawPointerGuide_mode
          cong: option.case_cong if_cong)
qed


lemma draw_texts_raises:
  assumes "\<exists>s \<in> set ss. truthy_str (s_text (s_options s)) \<and>
      \<not> known_orientation (or_str (textOrientation (s_options s)) (w_textOrientation opts))"
  shows "isl (draw_texts opts ss)"
  using assms
proof (induction ss)
  case Nil
  then show ?case by simp
next
  case (Cons s ss)
  show ?case
  proof (cases "truthy_str (s_text (s_options s)) \<and>
      \<not> known_orientation (or_str (textOrientation (s_options s)) (w_textOrientation opts))")
    case True
    then show ?thesis
      by (simp add: Segment_drawText_unknown seq_def)
  next
    case False
    with Cons have "isl (draw_texts opts ss)" by auto
    then show ?thesis
      by (auto simp: seq_def isl_def split: sum.splits)
  qed
qed

text \<open>
  C7, as the code has it. An orientation that is none of the three known values makes
  \<open>drawText\<close> raise "Invalid orientation" for every segment with a text, in normal and
  in reversed direction, and with it \<open>drawSegmentText\<close> for the wheel. A direction other
  than reversed is drawn as normal, and a draw mode other than image and segmentImage
  draws what the code mode draws.
\<close>

theorem unknown_orientation_raises:
  "(truthy_str (s_text (s_options s)) \<and>
    \<not> known_orientation (or_str (textOrientation (s_options s)) (w_textOrientation opts)) \<longrightarrow>
      Segment_drawText s cx cy orad irad opts =
        Inl (Error ((if or_str (textDirection (s_options s)) (w_textDirection opts) =
                        Some DIRECTION_REVERSED
                     then ''Invalid orientation: '' else ''Invalid orientation '') @
                    show_str (or_str (textOrientation (s_options s)) (w_textOrientation opts))))) \<and>
   (ctx w \<and>
    (\<exists>t \<in> set (segments w). truthy_str (s_text (s_options t)) \<and>
       \<not> known_orientation
           (or_str (textOrientation (s_options t)) (w_textOrientation (w_options w)))) \<longrightarrow>
      isl (drawSegmentText w)) \<and>
   (or_str (textDirection (s_options s)) (w_textDirection opts) \<noteq> Some DIRECTION_REVERSED \<longrightarrow>
      Segment_drawText s cx cy orad irad opts =
        Segment_drawText (s\<lparr> s_options := (s_options s)\<lparr> textDirection := Some ''normal'' \<rparr> \<rparr>)
          cx cy orad irad opts) \<and>
   (w_drawMode (w_options w) \<noteq> Some DRAW_MODE_IMAGE \<and>
    w_drawMode (w_options w) \<noteq> Some DRAW_MODE_SEGMENT_IMAGE \<longrightarrow>
      drawing (Winwheel_draw w c) =
        drawing (Winwheel_draw (set_drawMode w (Some DRAW_MODE_CODE)) c))"
  using Segment_drawText_unknown [of s opts cx cy orad irad]
    draw_texts_raises [of "segments w" "w_options w"]
    Segment_drawText_direction [of s opts cx cy orad irad]
    Winwheel_draw_mode [of w c]
  by (simp add: drawSegmentText_def)

lemmas text_eval =
  Segment_drawText_def drawTextNormal_def drawTextReversed_def new_Segment_def labelled_def
  no_segment_input_def segment_defaultOptions_def winwheel_defaultOptions_def canvas400_def
  or_str_def or_num_def seq_def fill_stroke_def rotate_about_def mid_angle_def degToRad_def
  ORIENTATION_HORIZONTAL_def ORIENTATION_VERTICAL_def ORIENTATION_CURVED_def
  ALIGNMENT_INNER_def ALIGNMENT_OUTER_def ALIGNMENT_CENTER_def DIRECTION_REVERSED_def

lemmas draw_eval =
  Winwheel_draw_def set_drawMode_def mixed_wheel_def blank_wheel_def clearCanvas_def
  drawSegments_def drawSegmentText_def Segment_draw_def drawPins_def drawPointerGuide_def
  pointerGuide_defaultOptions_def DRAW_MODE_IMAGE_def DRAW_MODE_SEGMENT_IMAGE_def sized_def

theorem unknown_orientation_raises_witness:
  "Segment_drawText (new_Segment (labelled ''Prize'' (Val ''diagonal'') Undefined (Val ''sideways'')))
     200 200 199 0 (winwheel_defaultOptions canvas400) =
     Inl (Error ''Invalid orientation diagonal'') \<and>
   isl (drawSegmentText
     ((blank_wheel canvas400 1 None)
        \<lparr> segments :=
            [new_Segment (labelled ''Prize'' (Val ''diagonal'') Undefined (Val ''sideways''))] \<rparr>)) \<and>
   drawing (Winwheel_draw (set_drawMode mixed_wheel (Some ''bogus'')) True) =
     drawing (Winwheel_draw (set_drawMode (set_drawMode mixed_wheel (Some ''bogus''))
                               (Some DRAW_MODE_CODE)) True)"
proof -
  let ?s = "new_Segment (labelled ''Prize'' (Val ''diagonal'') Undefined (Val ''sideways''))"
  let ?o = "winwheel_defaultOptions canvas400"
  let ?w = "(blank_wheel canvas400 1 None)\<lparr> segments := [?s] \<rparr>"
  let ?m = "set_drawMode mixed_wheel (Some ''bogus'')"
  have t: "truthy_str (s_text (s_options ?s))"
    by (simp add: text_eval)
  have o: "or_str (textOrientation (s_options ?s)) (w_textOrientation ?o) = Some ''diagonal''"
    by (simp add: text_eval)
  have d: "or_str (textDirection (s_options ?s)) (w_textDirection ?o) = Some ''sideways''"
    by (simp add: text_eval)
  have k: "\<not> known_orientation (Some ''diagonal'')"
    by (simp add: known_orientation_def text_eval)
  have c: "ctx ?w" "segments ?w = [?s]" "w_options ?w = ?o"
    by (simp_all add: blank_wheel_def winwheel_defaultOptions_def)
  have m: "w_drawMode (w_options ?m) \<noteq> Some DRAW_MODE_IMAGE \<and>
      w_drawMode (w_options ?m) \<noteq> Some DRAW_MODE_SEGMENT_IMAGE"
    by (simp add: set_drawMode_def DRAW_MODE_IMAGE_def DRAW_MODE_SEGMENT_IMAGE_def)
  have r: "Some ''sideways'' \<noteq> Some DIRECTION_REVERSED"
    by (simp add: DIRECTION_REVERSED_def)
  from unknown_orientation_raises
    [where s = ?s and opts = ?o and w = ?w and cx = 200 and cy = 200 and orad = 199 and irad = 0] t o d k c r
  have 1: "Segment_drawText ?s 200 200 199 0 ?o = Inl (Error ''Invalid orientation diagonal'')"
    and 2: "isl (drawSegmentText ?w)"
    by simp_all
  from unknown_orientation_raises [where w = ?m and c = True] m
  have 3: "drawing (Winwheel_draw ?m True) =
      drawing (Winwheel_draw (set_drawMode ?m (Some DRAW_MODE_CODE)) True)"
    by blast
  from 1 2 3 show ?thesis by blast
qed

text \<open>
  A text direction and a draw mode outside their enums raise nothing: the text is drawn
  and the wheel is drawn.
\<close>

theorem unknown_direction_and_mode_counterexample:
  "\<not> isl (Segment_drawText
            (new_Segment (labelled ''Prize'' Undefined Undefined (Val ''sideways'')))
            200 200 199 0 (winwheel_defaultOptions canvas400)) \<and>
   \<not> isl (Winwheel_draw (set_drawMode mixed_wheel (Some ''bogus'')) True)"
  by (simp add: draw_eval text_eval Let_def)

section \<open>Properties of the hit test\<close>

lemma atan_degrees_tan:
  assumes "0 \<le> u" "u < pi / 2" "0 < \<rho>"
  shows "atan_degrees (\<rho> * sin u) (\<rho> * cos u) = Some (u * 180 / pi)"
proof -
  have c: "0 < cos u" using assms by (intro cos_gt_zero_pi) simp_all
  have "\<rho> * sin u / (\<rho> * cos u) = tan u"
    using assms c by (simp add: tan_def)
  moreover have "arctan (tan u) = u"
    using assms by (intro arctan_tan) simp_all
  ultimately show ?thesis
    using c assms by (simp add: atan_degrees_def)
qed

lemma atan_degrees_cot:
  assumes "0 < u" "u \<le> pi / 2" "0 < \<rho>"
  shows "atan_degrees (\<rho> * cos u) (\<rho> * sin u) = Some (90 - u * 180 / pi)"
proof -
  have "atan_degrees (\<rho> * sin (pi / 2 - u)) (\<rho> * cos (pi / 2 - u)) = Some ((pi / 2 - u) * 180 / pi)"
    using assms by (intro atan_degrees_tan) simp_all
  moreover have "(pi / 2 - u) * 180 / pi = 90 - u * 180 / pi"
    by (simp add: field_simps)
  ultimately show ?thesis
    by (simp add: sin_diff cos_diff)
qed

lemma atan_degrees_up: "\<rho> \<noteq> 0 \<Longrightarrow> atan_degrees \<rho> 0 = Some 90"
  by (simp add: atan_degrees_def)

lemma bearing_polar:
  assumes dx: "locx - cx = \<rho> * sin (\<beta> * pi / 180)"
    and dy: "locy - cy = - \<rho> * cos (\<beta> * pi / 180)"
    and r: "0 < \<rho>" and b: "0 < \<beta>" "\<beta> \<le> 360"
  shows "(case triangle_sides locx locy cx cy of ((adj, lr), (opp, tb)) \<Rightarrow>
           map_option (quadrant_angle tb lr) (atan_degrees opp adj)) = Some (js_round \<beta>)"
proof -
  let ?t = "\<beta> * pi / 180"
  define dx dy where "dx = locx - cx" and "dy = locy - cy"
  have dx: "dx = \<rho> * sin ?t" and dy: "dy = - \<rho> * cos ?t"
    using assms(1,2) by (simp_all add: dx_def dy_def)
  have sides: "triangle_sides locx locy cx cy =
      ((if dx > 0 then (dx, ''R'') else (- dx, ''L'')),
       (if dy > 0 then (dy, ''B'') else (- dy, ''T'')))"
    by (simp add: triangle_sides_def dx_def dy_def)
  consider (A) "\<beta> \<le> 90" | (B) "90 < \<beta>" "\<beta> < 180" | (C) "180 \<le> \<beta>" "\<beta> < 270"
    | (D) "270 \<le> \<beta>" by linarith
  then show ?thesis
  proof cases
    case A
    have t: "0 < ?t" "?t \<le> pi / 2" using b A by (simp_all add: field_simps)
    have s: "0 < sin ?t" using t pi_gt_zero by (intro sin_gt_zero) linarith+
    have c: "0 \<le> cos ?t" using t by (intro cos_ge_zero) linarith+
    have "dx > 0" "\<not> dy > 0" using s c r by (simp_all add: dx dy mult_less_0_iff zero_less_mult_iff not_less)
    then show ?thesis
      using atan_degrees_cot [OF t r]
      by (simp add: sides dx dy quadrant_angle_def)
  next
    case B
    define u where "u = ?t - pi / 2"
    have u: "0 \<le> u" "u < pi / 2" "0 < u" using B by (simp_all add: u_def field_simps)
    have t: "?t = u + pi / 2" by (simp add: u_def)
    have sc: "sin ?t = cos u" "cos ?t = - sin u"
      unfolding t by (simp_all add: sin_add cos_add)
    have c: "0 < cos u" using u by (intro cos_gt_zero_pi) simp_all
    have s: "0 < sin u" using u pi_gt_zero by (intro sin_gt_zero) linarith+
    have "dx > 0" "dy > 0" using s c r by (simp_all add: dx dy sc mult_less_0_iff zero_less_mult_iff not_less)
    moreover have "u * 180 / pi + 90 = \<beta>" by (simp add: u_def field_simps)
    ultimately show ?thesis
      using atan_degrees_tan [OF u(1,2) r]
      by (simp add: sides dx dy sc quadrant_angle_def)
  next
    case C
    define u where "u = ?t - pi"
    have u: "0 \<le> u" "u < pi / 2" using C by (simp_all add: u_def field_simps)
    have t: "?t = u + pi" by (simp add: u_def)
    have sc: "sin ?t = - sin u" "cos ?t = - cos u"
      unfolding t by simp_all
    have c: "0 < cos u" using u by (intro cos_gt_zero_pi) simp_all
    have s: "0 \<le> sin u" using u pi_gt_zero by (intro sin_ge_zero) linarith+
    have h: "\<not> dx > 0" "dy > 0" using s c r by (simp_all add: dx dy sc mult_less_0_iff zero_less_mult_iff not_less)
    have e: "90 - (90 - u * 180 / pi) + 180 = \<beta>" by (simp add: u_def field_simps)
    show ?thesis
    proof (cases "u = 0")
      case True
      then have "\<beta> = 180" by (simp add: u_def field_simps)
      with True h r show ?thesis
        by (simp add: sides dx dy sc quadrant_angle_def atan_degrees_def)
    next
      case False
      with u have "0 < u" "u \<le> pi / 2" by simp_all
      from atan_degrees_cot [OF this r] h e show ?thesis
        by (simp add: sides dx dy sc quadrant_angle_def)
    qed
  next
    case D
    define u where "u = ?t - 3 * pi / 2"
    have u: "0 \<le> u" "u \<le> pi / 2" using D b by (simp_all add: u_def field_simps)
    have t: "?t = u + 3 / 2 * pi" by (simp add: u_def)
    have q: "sin (3 * pi / 2) = - 1" "cos (3 * pi / 2) = 0"
      using sin_3over2_pi cos_3over2_pi by simp_all
    have sc: "sin ?t = - cos u" "cos ?t = sin u"
      unfolding t by (simp_all add: sin_add cos_add q)
    have c: "0 \<le> cos u" using u by (intro cos_ge_zero) linarith+
    have s: "0 \<le> sin u" using u pi_gt_zero by (intro sin_ge_zero) linarith+
    have h: "\<not> dx > 0" "\<not> dy > 0" using s c r by (simp_all add: dx dy sc mult_less_0_iff zero_less_mult_iff not_less)
    have e: "u * 180 / pi + 270 = \<beta>" by (simp add: u_def field_simps)
    show ?thesis
    proof (cases "u = pi / 2")
      case True
      then have "\<beta> = 360" by (simp add: u_def field_simps)
      with True h r show ?thesis
        by (simp add: sides dx dy sc quadrant_angle_def atan_degrees_def)
    next
      case False
      with u have "u < pi / 2" by simp
      from atan_degrees_tan [OF u(1) this r] h e show ?thesis
        by (simp add: sides dx dy sc quadrant_angle_def)
    qed
  qed
qed


lemma bearing_hypotenuse:
  assumes dx: "locx - cx = \<rho> * sin t"
    and dy: "locy - cy = - \<rho> * cos t"
    and r: "0 < \<rho>"
  shows "(case triangle_sides locx locy cx cy of ((adj, lr), (opp, tb)) \<Rightarrow>
           sqrt ((opp * opp) + (adj * adj))) = \<rho>"
proof -
  have "(- \<rho> * cos t) * (- \<rho> * cos t) + (\<rho> * sin t) * (\<rho> * sin t) =
      \<rho> * \<rho> * (sin t * sin t + cos t * cos t)"
    by algebra
  also have "sin t * sin t + cos t * cos t = 1"
    using sin_cos_squared_add [of t] by (simp add: power2_eq_square)
  finally have e: "(locy - cy) * (locy - cy) + (locx - cx) * (locx - cx) = \<rho> * \<rho>"
    unfolding dx dy by simp
  have m: "(cy - locy) * (cy - locy) = (locy - cy) * (locy - cy)"
    "(cx - locx) * (cx - locx) = (locx - cx) * (locx - cx)"
    by (simp_all add: algebra_simps)
  have q: "sqrt (\<rho> * \<rho>) = \<rho>" using r by simp
  show ?thesis
    unfolding triangle_sides_def using r by (simp add: m e q split: if_splits)
qed

lemma find_segment_at:
  assumes "i < length ss"
    and "\<forall>j < i. \<not> (startAngle (ss ! j) \<le> la \<and> la \<le> endAngle (ss ! j))"
    and "startAngle (ss ! i) \<le> la" "la \<le> endAngle (ss ! i)"
    and "inner \<le> h" "h \<le> outer"
  shows "find_segment la h inner outer ss b = Some (b + i)"
  using assms
proof (induction ss arbitrary: i b)
  case Nil
  then show ?case by simp
next
  case (Cons s ss)
  show ?case
  proof (cases i)
    case 0
    with Cons.prems show ?thesis by simp
  next
    case (Suc n)
    from Cons.prems(2) Suc have "\<not> (startAngle s \<le> la \<and> la \<le> endAngle s)"
      by (metis nth_Cons_0 zero_less_Suc)
    moreover have "find_segment la h inner outer ss (b + 1) = Some (b + 1 + n)"
    proof (rule Cons.IH)
      show "n < length ss" using Cons.prems(1) Suc by simp
      show "\<forall>j<n. \<not> (startAngle (ss ! j) \<le> la \<and> la \<le> endAngle (ss ! j))"
        using Cons.prems(2) Suc by (metis Suc_less_eq nth_Cons_Suc)
    qed (use Cons.prems Suc in simp_all)
    ultimately show ?thesis using Suc by auto
  qed
qed

text \<open>The rotations of the claim and what \<open>getRotationPosition\<close> makes of them.\<close>

lemma rotation_positions:
  assumes "w_rotationAngle (w_options w) \<in> {0, 90, 359, 720, - 45}"
  shows "\<exists>R P j. w_rotationAngle (w_options w) = of_int R \<and>
           getRotationPosition w = of_int P \<and> 0 \<le> P \<and> P < 360 \<and> R = P + 360 * j \<and>
           (R = 0 \<longleftrightarrow> w_rotationAngle (w_options w) = 0)"
proof -
  from assms consider "w_rotationAngle (w_options w) = 0" | "w_rotationAngle (w_options w) = 90"
    | "w_rotationAngle (w_options w) = 359" | "w_rotationAngle (w_options w) = 720"
    | "w_rotationAngle (w_options w) = - 45" by auto
  then show ?thesis
  proof cases
    case 1
    then show ?thesis
      by (intro exI [of _ 0] exI [of _ "0::int"]) (simp add: getRotationPosition_def)
  next
    case 2
    then show ?thesis
      by (intro exI [of _ 90] exI [of _ "0::int"]) (simp add: getRotationPosition_def)
  next
    case 3
    then show ?thesis
      by (intro exI [of _ 359] exI [of _ "0::int"]) (simp add: getRotationPosition_def)
  next
    case 4
    then show ?thesis
      by (intro exI [of _ 720] exI [of _ 0] exI [of _ "2::int"]) (simp add: getRotationPosition_def)
  next
    case 5
    then show ?thesis
      by (intro exI [of _ "- 45"] exI [of _ 315] exI [of _ "- 1::int"])
         (simp add: getRotationPosition_def)
  qed
qed

lemma unrotate_inside:
  fixes k :: int
  assumes rot: "w_rotationAngle (w_options w) \<in> {0, 90, 359, 720, - 45}"
    and b: "0 < \<beta>" "\<beta> \<le> 360"
    and lo: "s + 1 / 2 \<le> \<beta> - w_rotationAngle (w_options w) + 360 * of_int k"
    and hi: "\<beta> - w_rotationAngle (w_options w) + 360 * of_int k < e - 1 / 2"
    and se: "0 \<le> s" "e \<le> 360"
  shows "s < unrotate w (js_round \<beta>) \<and> unrotate w (js_round \<beta>) < e"
proof -
  from rotation_positions [OF rot] obtain R P j where
    R: "w_rotationAngle (w_options w) = of_int R" and P: "getRotationPosition w = of_int P"
    and Pb: "0 \<le> P" "P < 360" and RP: "R = P + 360 * j"
    and R0: "R = 0 \<longleftrightarrow> w_rotationAngle (w_options w) = 0"
    by blast
  define n where "n = \<lfloor>\<beta> + 1 / 2\<rfloor>"
  have n1: "of_int n \<le> \<beta> + 1 / 2" and n2: "\<beta> + 1 / 2 < of_int n + 1"
    unfolding n_def by linarith+
  have nb: "0 \<le> n" "n \<le> 360"
  proof -
    have "(0::real) < of_int (n + 1)" using n2 b by simp
    then have "0 < n + 1" by (simp only: of_int_0_less_iff)
    then show "0 \<le> n" by simp
    have "real_of_int n < of_int 361" using n1 b by simp
    then have "n < 361" by (simp only: of_int_less_iff)
    then show "n \<le> 360" by simp
  qed
  define m where "m = n - P"
  define z where "z = k - j"
  define D where "D = m + 360 * z"
  have mb: "- 360 < m" "m \<le> 360" using nb Pb by (simp_all add: m_def)
  have Dr: "real_of_int D = of_int n - of_int R + 360 * of_int k"
    by (simp add: D_def m_def z_def RP)
  have sD: "s < of_int D" and De: "real_of_int D < e"
    using lo hi n1 n2 unfolding Dr R by linarith+
  have "(0::real) < of_int D" "real_of_int D < of_int 360" using sD De se by simp_all
  then have Db: "0 < D" "D < 360" by (simp_all only: of_int_0_less_iff of_int_less_iff)
  have jr: "js_round \<beta> = of_int n" by (simp add: js_round_def n_def)
  have "unrotate w (js_round \<beta>) = of_int D"
  proof (cases "R = 0")
    case True
    with RP have "P + 360 * j = 0" by simp
    with Pb have "0 \<le> j" "j \<le> 0" by linarith+
    with \<open>P + 360 * j = 0\<close> have "P = 0" by simp
    then have mn: "m = n" by (simp add: m_def)
    from Db nb have "0 \<le> z" "z \<le> 0" unfolding D_def mn by linarith+
    then have "D = n" unfolding D_def mn by simp
    with True R0 jr show ?thesis by (simp add: unrotate_def)
  next
    case False
    then have nz: "w_rotationAngle (w_options w) \<noteq> 0" using R0 by simp
    have u: "unrotate w (js_round \<beta>) =
        (if real_of_int m < 0 then 360 - \<bar>real_of_int m\<bar> else of_int m)"
      using nz by (simp add: unrotate_def Let_def jr P m_def)
    show ?thesis
    proof (cases "m < 0")
      case True
      with mb Db have "1 \<le> z" "z \<le> 1" unfolding D_def by linarith+
      then have "D = 360 + m" unfolding D_def by simp
      with True show ?thesis unfolding u by simp
    next
      case False
      with mb Db have "0 \<le> z" "z \<le> 0" unfolding D_def by linarith+
      then have "D = m" unfolding D_def by simp
      with False show ?thesis unfolding u by simp
    qed
  qed
  with sD De show ?thesis by simp
qed


text \<open>
  C6, as the code has it. Take a rotation among 0, 90, 359, 720 and - 45 and a location
  whose pixel on the canvas lies at a distance from the centre between the inner and the
  outer radius and at a bearing that, taken back by the rotation, is at least half a
  degree inside the span of a segment. If the span lies between 0 and 360 and no earlier
  segment ends after its start, \<open>getSegmentNumberAt\<close> returns the index of the segment.
  The pixel at the mid-angle of a segment wider than one degree is such a location.
\<close>

theorem getSegmentNumberAt_inside_segment:
  fixes w :: wheel and k :: int
  defines "cx \<equiv> w_centerX (w_options w) * w_scaleFactor (w_options w)"
    and "cy \<equiv> w_centerY (w_options w) * w_scaleFactor (w_options w)"
    and "rot \<equiv> w_rotationAngle (w_options w)"
  assumes loc: "windowToCanvas w x y = Inr (Some lx, Some ly)"
    and rot: "rot \<in> {0, 90, 359, 720, - 45}"
    and px: "of_int lx - cx = \<rho> * sin (\<beta> * pi / 180)"
    and py: "of_int ly - cy = - \<rho> * cos (\<beta> * pi / 180)"
    and b: "0 < \<beta>" "\<beta> \<le> 360"
    and r: "0 < \<rho>" "w_innerRadius (w_options w) * w_scaleFactor (w_options w) \<le> \<rho>"
      "\<rho> \<le> w_outerRadius (w_options w) * w_scaleFactor (w_options w)"
    and i: "i < length (segments w)"
    and lo: "startAngle (segments w ! i) + 1 / 2 \<le> \<beta> - rot + 360 * of_int k"
    and hi: "\<beta> - rot + 360 * of_int k < endAngle (segments w ! i) - 1 / 2"
    and range: "0 \<le> startAngle (segments w ! i)" "endAngle (segments w ! i) \<le> 360"
    and earlier: "\<forall>j < i. endAngle (segments w ! j) \<le> startAngle (segments w ! i)"
  shows "getSegmentNumberAt w x y = Inr (Some i)"
proof -
  obtain adj lr opp tb where ts:
    "triangle_sides (of_int lx) (of_int ly) cx cy = ((adj, lr), (opp, tb))"
    by (metis prod.exhaust)
  from bearing_polar [OF px py r(1) b] ts
  obtain res where res: "atan_degrees opp adj = Some res"
    and q: "quadrant_angle tb lr res = js_round \<beta>"
    by auto
  from bearing_hypotenuse [OF px py r(1)] ts
  have h: "sqrt ((opp * opp) + (adj * adj)) = \<rho>" by simp
  let ?la = "unrotate w (js_round \<beta>)"
  have la: "startAngle (segments w ! i) < ?la \<and> ?la < endAngle (segments w ! i)"
    using rot b lo hi range unfolding rot_def by (rule unrotate_inside)
  have e: "\<forall>j < i. \<not> (startAngle (segments w ! j) \<le> ?la \<and> ?la \<le> endAngle (segments w ! j))"
    using earlier la by fastforce
  have "find_segment ?la \<rho>
      (w_innerRadius (w_options w) * w_scaleFactor (w_options w))
      (w_outerRadius (w_options w) * w_scaleFactor (w_options w)) (segments w) 0 = Some (0 + i)"
    using i e la r(2,3) by (intro find_segment_at) simp_all
  then have "segment_at_location w (of_int lx) (of_int ly) = Some i"
    using ts res q h
    by (simp add: segment_at_location_def Let_def cx_def [symmetric] cy_def [symmetric])
  then show ?thesis
    by (simp add: getSegmentNumberAt_def loc)
qed

lemma quarter_wheel_fields:
  "spans_of quarter_wheel = [(0, 90), (90, 180), (180, 270), (270, 360)]"
  "w_canvas quarter_wheel = Some canvas400"
  "w_centerX (w_options quarter_wheel) = 200"
  "w_centerY (w_options quarter_wheel) = 200"
  "w_innerRadius (w_options quarter_wheel) = 0"
  "w_outerRadius (w_options quarter_wheel) = 199"
  "w_scaleFactor (w_options quarter_wheel) = 1"
  by (simp_all add: quarter_wheel_def wheel_eval upt_rec canvas400_def)

theorem getSegmentNumberAt_inside_segment_witness:
  "getSegmentNumberAt (set_rotationAngle quarter_wheel (- 45))
     (fst (mid_point (set_rotationAngle quarter_wheel (- 45)) (segments quarter_wheel ! 1)))
     (snd (mid_point (set_rotationAngle quarter_wheel (- 45)) (segments quarter_wheel ! 1))) =
   Inr (Some 1)"
proof -
  let ?w = "set_rotationAngle quarter_wheel (- 45)"
  obtain s0 s1 s2 s3 where ss: "segments quarter_wheel = [s0, s1, s2, s3]"
    and a: "startAngle s0 = 0" "endAngle s0 = 90" "startAngle s1 = 90" "endAngle s1 = 180"
    using quarter_wheel_fields(1)
    by (auto simp: spans_of_def map_eq_Cons_conv)
  have f: "segments ?w = [s0, s1, s2, s3]" "w_canvas ?w = Some canvas400"
    "w_rotationAngle (w_options ?w) = - 45"
    "w_centerX (w_options ?w) = 200" "w_centerY (w_options ?w) = 200"
    "w_innerRadius (w_options ?w) = 0" "w_outerRadius (w_options ?w) = 199"
    "w_scaleFactor (w_options ?w) = 1"
    by (simp_all add: set_rotationAngle_def ss quarter_wheel_fields)
  have m: "mid_point ?w (segments quarter_wheel ! 1) = (200 + 199 / 2, 200)"
    by (simp add: mid_point_def f ss a Let_def)
  have loc: "windowToCanvas ?w (200 + 199 / 2) 200 = Inr (Some 299, Some 200)"
    by (simp add: windowToCanvas_def f canvas400_def)
  have "getSegmentNumberAt ?w (200 + 199 / 2) 200 = Inr (Some 1)"
  proof (rule getSegmentNumberAt_inside_segment [where \<rho> = 99 and \<beta> = 90 and k = 0, OF loc])
    show "w_rotationAngle (w_options ?w) \<in> {0, 90, 359, 720, - 45}" by (simp add: f)
  qed (simp_all add: f a)
  then show ?thesis
    unfolding m by simp
qed


lemma narrow_wheel_built:
  "new_Winwheel canvas200 2 (Some [sized (Val 1), sized Null]) = Inr narrow_wheel"
  by (simp add: narrow_wheel_def wheel_eval upt_rec)

lemma narrow_wheel_fields:
  "spans_of narrow_wheel = [(0, 1), (1, 360)]"
  "w_canvas narrow_wheel = Some canvas200"
  "w_rotationAngle (w_options narrow_wheel) = 0"
  "w_centerX (w_options narrow_wheel) = 100"
  "w_centerY (w_options narrow_wheel) = 100"
  "w_innerRadius (w_options narrow_wheel) = 0"
  "w_outerRadius (w_options narrow_wheel) = 99"
  "w_scaleFactor (w_options narrow_wheel) = 1"
  by (simp_all add: narrow_wheel_def wheel_eval upt_rec canvas200_def)

lemma small_sin: "0 \<le> 99 / 2 * sin (pi / 360)" "99 / 2 * sin (pi / 360) < 1"
proof -
  have p: "0 \<le> pi / 360" "pi / 360 \<le> pi" using pi_gt_zero by simp_all
  from sin_ge_zero [OF p] show "0 \<le> 99 / 2 * sin (pi / 360)" by simp
  have "sin (pi / 360) \<le> pi / 360" using p(1) by (rule sin_x_le_x)
  also have "\<dots> < 4 / 360" using pi_less_4 by simp
  finally show "99 / 2 * sin (pi / 360) < 1" by simp
qed

lemma small_cos: "0 < 99 / 2 * cos (pi / 360)" "99 / 2 * cos (pi / 360) \<le> 99 / 2"
proof -
  have "0 < cos (pi / 360)"
    using pi_gt_zero by (intro cos_gt_zero_pi) simp_all
  then show "0 < 99 / 2 * cos (pi / 360)" by simp
  show "99 / 2 * cos (pi / 360) \<le> 99 / 2" using cos_le_one [of "pi / 360"] by simp
qed

lemma floor_x: "\<lfloor>100 + 99 / 2 * sin (pi / 360)\<rfloor> = 100"
proof -
  have "100 \<le> 100 + 99 / 2 * sin (pi / 360)" "100 + 99 / 2 * sin (pi / 360) < 100 + 1"
    using small_sin by linarith+
  then show ?thesis by (subst floor_eq_iff) simp
qed

lemma floor_x_normal: "\<lfloor>99 * sin (pi / 360) / 2\<rfloor> = 0"
proof -
  have "0 \<le> 99 * sin (pi / 360) / 2" "99 * sin (pi / 360) / 2 < 0 + 1"
    using small_sin by linarith+
  then show ?thesis by (subst floor_eq_iff) simp
qed

lemma floor_y: "50 \<le> \<lfloor>100 - 99 / 2 * cos (pi / 360)\<rfloor>" "\<lfloor>100 - 99 / 2 * cos (pi / 360)\<rfloor> \<le> 99"
proof -
  have b: "50 \<le> 100 - 99 / 2 * cos (pi / 360)" "100 - 99 / 2 * cos (pi / 360) < 99 + 1"
    using small_cos by linarith+
  from b(1) show "50 \<le> \<lfloor>100 - 99 / 2 * cos (pi / 360)\<rfloor>"
    by (subst le_floor_iff) simp
  from b(2) show "\<lfloor>100 - 99 / 2 * cos (pi / 360)\<rfloor> \<le> 99"
    by (subst floor_le_iff) simp
qed

lemma located_above:
  assumes "50 \<le> ly" "ly \<le> 99"
  shows "segment_at_location narrow_wheel 100 (of_int ly) = Some 1"
proof -
  have s: "segments narrow_wheel = [s0, s1] \<Longrightarrow> True" for s0 s1 by simp
  obtain s0 s1 where ss: "segments narrow_wheel = [s0, s1]"
    and a: "startAngle s0 = 0" "endAngle s0 = 1" "startAngle s1 = 1" "endAngle s1 = 360"
    using narrow_wheel_fields(1)
    by (auto simp: spans_of_def map_eq_Cons_conv)
  have y: "\<not> real_of_int ly > 100" "real_of_int ly \<le> 100" using assms by simp_all
  have h: "sqrt ((100 - real_of_int ly) * (100 - real_of_int ly)) = 100 - real_of_int ly"
    using y by (simp add: real_sqrt_mult_self abs_if)
  have b: "0 \<le> 100 - real_of_int ly" "100 - real_of_int ly \<le> 99" "100 - real_of_int ly \<noteq> 0"
    using assms by simp_all
  show ?thesis
    using y b
    by (simp add: segment_at_location_def triangle_sides_def quadrant_angle_def unrotate_def
        narrow_wheel_fields atan_degrees_def js_round_def ss a h Let_def)
qed

text \<open>
  On the wheel with the spans 0 to 1 and 1 to 360 the point at the mid-angle and the
  radial midpoint of the first segment falls into the pixel straight above the centre,
  which the code places at 360 degrees, in the second segment.
\<close>

theorem getSegmentNumberAt_narrow_counterexample:
  "new_Winwheel canvas200 2 (Some [sized (Val 1), sized Null]) = Inr narrow_wheel \<and>
   spans_of narrow_wheel = [(0, 1), (1, 360)] \<and>
   getSegmentNumberAt narrow_wheel
     (fst (mid_point narrow_wheel (segments narrow_wheel ! 0)))
     (snd (mid_point narrow_wheel (segments narrow_wheel ! 0))) = Inr (Some 1)"
proof -
  obtain s0 s1 where ss: "segments narrow_wheel = [s0, s1]"
    and a: "startAngle s0 = 0" "endAngle s0 = 1"
    using narrow_wheel_fields(1)
    by (auto simp: spans_of_def map_eq_Cons_conv)
  have m: "mid_point narrow_wheel (segments narrow_wheel ! 0) =
      (100 + 99 / 2 * sin (pi / 360), 100 - 99 / 2 * cos (pi / 360))"
    by (simp add: mid_point_def narrow_wheel_fields ss a Let_def)
  have w: "windowToCanvas narrow_wheel (100 + 99 / 2 * sin (pi / 360)) (100 - 99 / 2 * cos (pi / 360)) =
      Inr (Some 100, Some \<lfloor>100 - 99 / 2 * cos (pi / 360)\<rfloor>)"
    unfolding windowToCanvas_def narrow_wheel_fields canvas200_def
    by (simp add: floor_x floor_x_normal)
  have g: "getSegmentNumberAt narrow_wheel
      (100 + 99 / 2 * sin (pi / 360)) (100 - 99 / 2 * cos (pi / 360)) = Inr (Some 1)"
    unfolding getSegmentNumberAt_def w using located_above [OF floor_y] by simp
  show ?thesis
    unfolding m fst_conv snd_conv g
    by (simp add: narrow_wheel_built narrow_wheel_fields)
qed


section \<open>Properties of the random stop angle\<close>

lemma random_offset_bounds:
  fixes rnd range :: real
  assumes "0 \<le> rnd" "rnd < 1" "0 < range"
  shows "0 \<le> real_of_int \<lfloor>rnd * range\<rfloor>" and "real_of_int \<lfloor>rnd * range\<rfloor> < range"
proof -
  have "0 \<le> rnd * range" using assms by simp
  then show "0 \<le> real_of_int \<lfloor>rnd * range\<rfloor>" by simp
  have "rnd * range < 1 * range" using assms by (intro mult_strict_right_mono) simp_all
  then have "rnd * range < range" by simp
  moreover have "real_of_int \<lfloor>rnd * range\<rfloor> \<le> rnd * range" by (rule of_int_floor_le)
  ultimately show "real_of_int \<lfloor>rnd * range\<rfloor> < range" by linarith
qed

text \<open>
  C10. \<open>getRandomForSegment\<close> with segment number 0 raises "Segment number not
  specified" on every wheel, also one with a segment at index 0. With a number \<open>i \<ge> 1\<close>
  at which the wheel has a segment it raises nothing and returns the random stop angle
  of that segment: for a segment wider than 2 degrees the start angle plus 1 plus the
  floor of the random number times the width less 2, which for a random number from 0 up
  to 1 lies at least one degree inside the segment at both ends; for a narrower segment
  0, with a line on the console.
\<close>

theorem getRandomForSegment_guard:
  "getRandomForSegment w rnd (Some 0) = Inl (Error ''Segment number not specified'') \<and>
   (1 \<le> i \<and> i < length (segments w) \<longrightarrow>
      getRandomForSegment w rnd (Some i) = Inr (getRandomStopAngle (segments w ! i) rnd) \<and>
      (2 < endAngle (segments w ! i) - startAngle (segments w ! i) \<longrightarrow>
         getRandomForSegment w rnd (Some i) =
           Inr (startAngle (segments w ! i) + 1 +
                  of_int \<lfloor>rnd * (endAngle (segments w ! i) - startAngle (segments w ! i) - 2)\<rfloor>,
                []) \<and>
         (0 \<le> rnd \<and> rnd < 1 \<longrightarrow>
            (\<exists>a. getRandomForSegment w rnd (Some i) = Inr (a, []) \<and>
                 startAngle (segments w ! i) + 1 \<le> a \<and> a < endAngle (segments w ! i) - 1))) \<and>
      (endAngle (segments w ! i) - startAngle (segments w ! i) \<le> 2 \<longrightarrow>
         getRandomForSegment w rnd (Some i) =
           Inr (0, [''Segment size is too small to safely get random angle inside it''])))"
proof -
  let ?s = "segments w ! i"
  let ?range = "endAngle ?s - startAngle ?s - 2"
  have wide: "getRandomStopAngle ?s rnd = (startAngle ?s + 1 + of_int \<lfloor>rnd * ?range\<rfloor>, [])"
    if "2 < endAngle ?s - startAngle ?s"
    using that by (simp add: getRandomStopAngle_def Let_def)
  have inside: "startAngle ?s + 1 \<le> startAngle ?s + 1 + of_int \<lfloor>rnd * ?range\<rfloor> \<and>
      startAngle ?s + 1 + of_int \<lfloor>rnd * ?range\<rfloor> < endAngle ?s - 1"
    if "2 < endAngle ?s - startAngle ?s" "0 \<le> rnd" "rnd < 1"
    using random_offset_bounds [of rnd ?range] that by simp
  have narrow: "getRandomStopAngle ?s rnd =
      (0, [''Segment size is too small to safely get random angle inside it''])"
    if "endAngle ?s - startAngle ?s \<le> 2"
    using that by (simp add: getRandomStopAngle_def Let_def)
  show ?thesis
    using wide inside narrow by (simp add: getRandomForSegment_def)
qed

theorem getRandomForSegment_guard_witness:
  "length (segments quarter_wheel) = 4 \<and>
   getRandomForSegment quarter_wheel (1 / 2) (Some 0) =
     Inl (Error ''Segment number not specified'') \<and>
   getRandomForSegment quarter_wheel (1 / 2) (Some 1) = Inr (135, []) \<and>
   getRandomForSegment mixed_wheel (1 / 2) (Some 1) =
     Inr (0, [''Segment size is too small to safely get random angle inside it''])"
proof -
  obtain s0 s1 s2 s3 where ss: "segments quarter_wheel = [s0, s1, s2, s3]"
    and a: "startAngle s1 = 90" "endAngle s1 = 180"
    using quarter_wheel_fields(1)
    by (auto simp: spans_of_def map_eq_Cons_conv)
  have l: "length (segments quarter_wheel) = 4" by (simp add: ss)
  have q: "(1::nat) \<le> 1 \<and> 1 < length (segments quarter_wheel)" by (simp add: ss)
  have wq: "2 < endAngle (segments quarter_wheel ! 1) - startAngle (segments quarter_wheel ! 1)"
    by (simp add: ss a)
  from getRandomForSegment_guard [of quarter_wheel "1 / 2" 1] q wq
  have 0: "getRandomForSegment quarter_wheel (1 / 2) (Some 0) =
      Inl (Error ''Segment number not specified'')"
    and 1: "getRandomForSegment quarter_wheel (1 / 2) (Some 1) =
      Inr (startAngle (segments quarter_wheel ! 1) + 1 +
             of_int \<lfloor>1 / 2 * (endAngle (segments quarter_wheel ! 1) -
                               startAngle (segments quarter_wheel ! 1) - 2)\<rfloor>, [])"
    by blast+
  have 2: "getRandomForSegment quarter_wheel (1 / 2) (Some 1) = Inr (135, [])"
    unfolding 1 by (simp add: ss a)
  have m: "(1::nat) \<le> 1 \<and> 1 < length (segments mixed_wheel)" by (simp add: mixed_wheel_def)
  have wm: "endAngle (segments mixed_wheel ! 1) - startAngle (segments mixed_wheel ! 1) \<le> 2"
    by (simp add: mixed_wheel_def new_Segment_def Let_def)
  from getRandomForSegment_guard [of mixed_wheel "1 / 2" 1] m wm
  have 3: "getRandomForSegment mixed_wheel (1 / 2) (Some 1) =
      Inr (0, [''Segment size is too small to safely get random angle inside it''])"
    by blast
  from l 0 2 3 show ?thesis by blast
qed

end
